theory Spec2Isabelle
  imports Complex_Main
begin

section \<open>Calendar dates\<close>

text \<open>
  The columns \<open>start_date\<close>, \<open>next_payment_date\<close> and \<open>payment_date\<close> are SQL
  \<open>DATE\<close>s, which PHP reads and writes as \<open>Y-m-d\<close> strings. A date is modelled by its
  three numbers.
\<close>

record date =
  year :: nat
  month :: nat
  day :: nat

definition is_leap_year :: "nat \<Rightarrow> bool" where
  "is_leap_year y \<longleftrightarrow> (y mod 4 = 0 \<and> y mod 100 \<noteq> 0) \<or> y mod 400 = 0"

definition days_in_month :: "nat \<Rightarrow> nat \<Rightarrow> nat" where
  "days_in_month y m =
     (if m = 2 then (if is_leap_year y then 29 else 28)
      else if m = 4 \<or> m = 6 \<or> m = 9 \<or> m = 11 then 30
      else 31)"

definition valid_date :: "date \<Rightarrow> bool" where
  "valid_date d \<longleftrightarrow>
     1 \<le> month d \<and> month d \<le> 12 \<and> 1 \<le> day d \<and> day d \<le> days_in_month (year d) (month d)"

text \<open>The order of SQL dates, as used by \<open>next_payment_date < CURDATE()\<close>.\<close>

definition date_less :: "date \<Rightarrow> date \<Rightarrow> bool" where
  "date_less a b \<longleftrightarrow>
     year a < year b \<or>
     (year a = year b \<and> (month a < month b \<or> (month a = month b \<and> day a < day b)))"

subsection \<open>PHP month arithmetic\<close>

text \<open>
  \<open>$date->add(new DateInterval('P' . $billing_cycle . 'M'))\<close> adds the cycle to the month
  field and then normalises the date: the month is brought back into 1..12 by carrying
  into the year, and a day beyond the end of the month is carried into the following
  month (the PHP manual's own example is 2001-01-31 plus one month giving 2001-03-03).
  \<open>range_limit_days\<close> is that carry loop.
\<close>

function range_limit_days :: "nat \<Rightarrow> nat \<Rightarrow> nat \<Rightarrow> date" where
  "range_limit_days y m d =
     (if days_in_month y m < d
      then (if m = 12 then range_limit_days (Suc y) 1 (d - days_in_month y m)
            else range_limit_days y (Suc m) (d - days_in_month y m))
      else \<lparr>year = y, month = m, day = d\<rparr>)"
  by pat_completeness auto
termination
  by (relation "measure (\<lambda>(y, m, d). d)") (auto simp: days_in_month_def)

declare range_limit_days.simps [simp del]

definition target_year :: "date \<Rightarrow> nat \<Rightarrow> nat" where
  "target_year d c = year d + (month d - 1 + c) div 12"

definition target_month :: "date \<Rightarrow> nat \<Rightarrow> nat" where
  "target_month d c = (month d - 1 + c) mod 12 + 1"

definition DateTime_add_months :: "date \<Rightarrow> nat \<Rightarrow> date" where
  "DateTime_add_months d c = range_limit_days (target_year d c) (target_month d c) (day d)"

text \<open>
  \<open>new DateTime($s)\<close> for a string written as \<open>Y-m-d\<close>, given by its three numbers. The
  parser takes a month up to 12 and a day up to 31 and throws on anything larger
  (\<open>None\<close>); what it takes it normalises: month 0 is December of the year before, day 0
  is the last day of the month before, and a day beyond the end of the month is carried
  forward, so \<open>2025-02-30\<close> is read as 2025-03-02. Years are natural numbers here, and
  the inputs that would lead before year 0 give \<open>None\<close> as well. A stored \<open>DATE\<close> is a
  calendar date and is read unchanged.
\<close>

definition new_DateTime :: "date \<Rightarrow> date option" where
  "new_DateTime d =
     (if 12 < month d \<or> 31 < day d then None
      else if month d = 0 \<and> year d = 0 then None
      else
        let y = (if month d = 0 then year d - 1 else year d);
            m = (if month d = 0 then 12 else month d)
        in if day d = 0 then
             (if m = 1 then
                (if y = 0 then None
                 else Some \<lparr>year = y - 1, month = 12, day = days_in_month (y - 1) 12\<rparr>)
              else Some \<lparr>year = y, month = m - 1, day = days_in_month y (m - 1)\<rparr>)
           else Some (range_limit_days y m (day d)))"

text \<open>
  \<open>calculateNextPaymentDate\<close> of the subscriptions API. The exception of the
  constructor is not caught there.
\<close>

definition calculateNextPaymentDate :: "date \<Rightarrow> nat \<Rightarrow> date option" where
  "calculateNextPaymentDate start_date billing_cycle =
     (case new_DateTime start_date of
        None \<Rightarrow> None
      | Some d \<Rightarrow> Some (DateTime_add_months d billing_cycle))"

text \<open>
  The specification's reading of the billing calculator, for comparison with the code:
  the same day in the target month, or the last day of that month when the day does not
  exist there.
\<close>

definition addMonths_clamped :: "date \<Rightarrow> nat \<Rightarrow> date" where
  "addMonths_clamped d c =
     \<lparr>year = target_year d c, month = target_month d c,
      day = min (day d) (days_in_month (target_year d c) (target_month d c))\<rparr>"

section \<open>PHP values\<close>

text \<open>
  \<open>empty($s)\<close> and the truth value of a string: the empty string and the string \<open>0\<close>
  are empty (falsy); every other string is not. A \<open>NULL\<close> is empty as well.
\<close>

definition php_empty :: "string \<Rightarrow> bool" where
  "php_empty s \<longleftrightarrow> s = '''' \<or> s = ''0''"

definition php_empty_opt :: "string option \<Rightarrow> bool" where
  "php_empty_opt s = (case s of None \<Rightarrow> True | Some x \<Rightarrow> php_empty x)"

definition is_digit :: "char \<Rightarrow> bool" where
  "is_digit c \<longleftrightarrow> c \<in> set ''0123456789''"

text \<open>\<open>preg_replace('/[^0-9]/', '', $phoneRaw)\<close>.\<close>

definition digits_only :: "string \<Rightarrow> string" where
  "digits_only s = filter is_digit s"

definition is_trim_char :: "char \<Rightarrow> bool" where
  "is_trim_char c \<longleftrightarrow> c \<in> set [CHR '' '', CHR 0x09, CHR 0x0A, CHR 0x0D, CHR 0x00, CHR 0x0B]"

definition trim :: "string \<Rightarrow> string" where
  "trim s = rev (dropWhile is_trim_char (rev (dropWhile is_trim_char s)))"

text \<open>
  A decoded JSON document, as \<open>json_decode($s, true)\<close> returns it. A number is its exact
  decimal value.
\<close>

datatype json =
    JNull
  | JBool bool
  | JNum rat
  | JStr string
  | JArr "json list"
  | JObj "(string \<times> json) list"

text \<open>
  \<open>empty($v)\<close> on a decoded value: \<open>null\<close>, \<open>false\<close>, the numbers 0 and 0.0, the strings
  \<open>''\<close> and \<open>'0'\<close> and the empty array are empty; everything else is not, also a string
  such as \<open>'0.00'\<close> or \<open>'abc'\<close>.
\<close>

definition php_empty_json :: "json \<Rightarrow> bool" where
  "php_empty_json v =
     (case v of
        JNull \<Rightarrow> True
      | JBool b \<Rightarrow> \<not> b
      | JNum q \<Rightarrow> q = 0
      | JStr s \<Rightarrow> php_empty s
      | JArr xs \<Rightarrow> xs = []
      | JObj kvs \<Rightarrow> kvs = [])"

subsection \<open>The cast to float\<close>

text \<open>
  \<open>(float)$s\<close> on a string reads its longest numeric prefix: leading white space, an
  optional sign, digits with an optional fraction, and an exponent when digits follow the
  \<open>e\<close>. A string with no such prefix is 0. The value is taken exactly: the rounding of a
  PHP float and of the \<open>DECIMAL(10, 2)\<close> columns is not modelled.
\<close>

definition is_space :: "char \<Rightarrow> bool" where
  "is_space c \<longleftrightarrow> c \<in> set [CHR '' '', CHR 0x09, CHR 0x0A, CHR 0x0B, CHR 0x0C, CHR 0x0D]"

definition digit_value :: "char \<Rightarrow> nat" where
  "digit_value c = length (takeWhile (\<lambda>d. d \<noteq> c) ''0123456789'')"

definition digits_value :: "string \<Rightarrow> nat" where
  "digits_value ds = foldl (\<lambda>n c. 10 * n + digit_value c) 0 ds"

definition strip_sign :: "string \<Rightarrow> bool \<times> string" where
  "strip_sign s =
     (case s of
        [] \<Rightarrow> (False, [])
      | c # r \<Rightarrow> if c = CHR ''-'' then (True, r) else if c = CHR ''+'' then (False, r)
                 else (False, s))"

definition exponent_of :: "string \<Rightarrow> int" where
  "exponent_of s =
     (case s of
        [] \<Rightarrow> 0
      | c # r \<Rightarrow>
          if c = CHR ''e'' \<or> c = CHR ''E'' then
            (let ed = takeWhile is_digit (snd (strip_sign r))
             in if ed = [] then 0
                else if fst (strip_sign r) then - int (digits_value ed)
                else int (digits_value ed))
          else 0)"

definition pow10 :: "int \<Rightarrow> rat" where
  "pow10 k = (if 0 \<le> k then 10 ^ nat k else 1 / 10 ^ nat (- k))"

definition strtod :: "string \<Rightarrow> rat" where
  "strtod s =
     (let s2 = snd (strip_sign (dropWhile is_space s));
          ip = takeWhile is_digit s2;
          s3 = dropWhile is_digit s2;
          fp = (case s3 of [] \<Rightarrow> [] | c # r \<Rightarrow> if c = CHR ''.'' then takeWhile is_digit r else []);
          s4 = (case s3 of [] \<Rightarrow> [] | c # r \<Rightarrow> if c = CHR ''.'' then dropWhile is_digit r else s3)
      in if ip = [] \<and> fp = [] then 0
         else (if fst (strip_sign (dropWhile is_space s)) then - 1 else 1) *
              (of_nat (digits_value (ip @ fp)) / 10 ^ length fp) * pow10 (exponent_of s4))"

text \<open>
  \<open>(float)$v\<close> on a decoded value: \<open>true\<close> is 1, a number is itself, a string is read by
  its numeric prefix and a non-empty array is 1.
\<close>

definition floatval :: "json \<Rightarrow> rat" where
  "floatval v =
     (case v of
        JNull \<Rightarrow> 0
      | JBool b \<Rightarrow> (if b then 1 else 0)
      | JNum q \<Rightarrow> q
      | JStr s \<Rightarrow> strtod s
      | JArr xs \<Rightarrow> (if xs = [] then 0 else 1)
      | JObj kvs \<Rightarrow> (if kvs = [] then 0 else 1))"

text \<open>
  \<open>$responseData\<close>: the decoded document when decoding succeeds, otherwise the raw value
  \<open>curl_exec\<close> returned, a string or \<open>false\<close>.
\<close>

datatype response_data = RFalse | RString string | RJson json

section \<open>Tables\<close>

datatype sub_status = Active | Stopped | Expired

datatype sub_type = Internet | Satellite

datatype reminder_status = Pending | Sent | Failed

record client =
  client_name :: string
  client_email :: string
  client_phone :: "string option"
  whatsapp_opt_in :: int

text \<open>
  Amounts are exact decimal numbers; the columns are \<open>DECIMAL(10, 2)\<close>, and their
  rounding is not modelled.
\<close>

record subscription =
  client_id :: nat
  stype :: sub_type
  start_date :: date
  end_date :: "date option"
  billing_cycle :: nat
  status :: sub_status
  next_payment_date :: date
  monthly_amount :: rat

record payment =
  payment_id :: nat
  subscription_id :: nat
  amount :: rat
  payment_date :: date
  payment_method :: string
  payment_notes :: string

record reminder =
  reminder_id :: nat
  reminder_client_id :: nat
  reminder_message :: string
  send_via_whatsapp :: bool
  reminder_status :: reminder_status

record whatsapp_log =
  log_phone :: string
  log_message :: string
  response_code :: nat
  response_data :: string

text \<open>The request body the relay receives.\<close>

record wa_payload =
  apiKey :: string
  number :: string
  wa_message :: string

text \<open>
  What \<open>sendPaymentConfirmationEmail\<close> writes: the function only logs the mail it would
  send.
\<close>

record email =
  mail_to :: string
  mail_subscription_type :: sub_type
  mail_amount :: rat
  mail_payment_date :: date
  mail_next_payment_date :: date

text \<open>The lines \<open>logWhatsAppDebug\<close> appends to the debug log, one constructor per call site.\<close>

datatype debug_line =
    LogApiKey string
  | LogPayload wa_payload
  | LogApiResponse nat "string option" string
  | LogCurlInfo
  | LogEval nat nat int "string option" "bool option" bool
  | LogInternalSend nat bool "json option"

text \<open>
  Everything the payment workflow reads or writes: the tables (clients and subscriptions
  by primary key, the others as row lists with their auto-increment counters), the
  requests sent to the relay, the mails logged and the debug log.
\<close>

record world =
  clients :: "nat \<rightharpoonup> client"
  subscriptions :: "nat \<rightharpoonup> subscription"
  payments :: "payment list"
  payments_last_id :: nat
  reminders :: "reminder list"
  reminders_last_id :: nat
  whatsapp_logs :: "whatsapp_log list"
  outbox :: "wa_payload list"
  mailbox :: "email list"
  debug_log :: "debug_line list"

section \<open>Environment\<close>

text \<open>
  The SQL statements of the workflow. With \<open>PDO::ERRMODE_EXCEPTION\<close> a failing statement
  throws a \<open>PDOException\<close>; the environment says which statements fail and with what
  message.
\<close>

datatype stmt =
    SelectSubscription
  | InsertPayment
  | UpdateSubscription
  | SelectPayment
  | InsertReminder
  | UpdateReminder
  | InsertWhatsappLog
  | UpdateExpired

record curl_reply =
  response :: "string option"
  http_code :: nat
  curl_error :: string

text \<open>
  What the code takes from outside: the current date, database failures, the relay's
  answer to a request, the \<open>WPBOT_API_KEY\<close> variable, and the PHP library functions
  whose output is only passed on (\<open>json_decode\<close> with \<open>None\<close> for a decoding error,
  \<open>json_encode\<close>, \<open>number_format($x, 2)\<close>, \<open>date('F j, Y', strtotime($d))\<close> and
  \<open>date('Y-m-d', strtotime($s))\<close>).
\<close>

record env =
  today :: date
  pdo_error :: "stmt \<Rightarrow> string option"
  relay :: "wa_payload \<Rightarrow> curl_reply"
  WPBOT_API_KEY :: "string option"
  json_decode :: "string \<Rightarrow> json option"
  json_encode :: "json \<Rightarrow> string"
  number_format :: "rat \<Rightarrow> string"
  format_long_date :: "date \<Rightarrow> string"
  parse_date :: "string \<Rightarrow> date"

section \<open>WhatsApp service\<close>

record wa_result =
  wa_success :: bool
  wa_error :: "json option"
  wa_http_code :: nat
  wa_response :: "response_data option"

definition logWhatsAppDebug :: "debug_line \<Rightarrow> world \<Rightarrow> world" where
  "logWhatsAppDebug l w = w\<lparr>debug_log := debug_log w @ [l]\<rparr>"

text \<open>\<open>curl_exec\<close>: the request leaves; the reply is the environment's.\<close>

definition curl_exec :: "wa_payload \<Rightarrow> world \<Rightarrow> world" where
  "curl_exec d w = w\<lparr>outbox := outbox w @ [d]\<rparr>"

definition decode_response :: "env \<Rightarrow> string option \<Rightarrow> response_data" where
  "decode_response e r =
     (case r of
        None \<Rightarrow> RFalse
      | Some body \<Rightarrow> (case json_decode e body of Some j \<Rightarrow> RJson j | None \<Rightarrow> RString body))"

text \<open>\<open>is_string($responseData) ? $responseData : json_encode($responseData)\<close>.\<close>

definition responseToStore :: "env \<Rightarrow> response_data \<Rightarrow> string" where
  "responseToStore e r =
     (case r of
        RFalse \<Rightarrow> ''false''
      | RString s \<Rightarrow> s
      | RJson j \<Rightarrow> (case j of JStr s \<Rightarrow> s | _ \<Rightarrow> json_encode e j))"

text \<open>
  The \<open>INSERT INTO whatsapp_logs\<close> inside its own \<open>try\<close>: a \<open>PDOException\<close> is logged and
  the function goes on.
\<close>

definition insert_whatsapp_log :: "env \<Rightarrow> whatsapp_log \<Rightarrow> world \<Rightarrow> world" where
  "insert_whatsapp_log e row w =
     (case pdo_error e InsertWhatsappLog of
        Some err \<Rightarrow> w
      | None \<Rightarrow> w\<lparr>whatsapp_logs := whatsapp_logs w @ [row]\<rparr>)"

text \<open>
  \<open>is_array($responseData) && isset($responseData['message']) ? $responseData['message']
  : 'Error sending WhatsApp message'\<close>.
\<close>

definition relay_error_message :: "response_data \<Rightarrow> json" where
  "relay_error_message r =
     (case r of
        RJson (JObj kvs) \<Rightarrow>
          (case map_of kvs ''message'' of
             Some v \<Rightarrow> (if v = JNull then JStr ''Error sending WhatsApp message'' else v)
           | None \<Rightarrow> JStr ''Error sending WhatsApp message'')
      | _ \<Rightarrow> JStr ''Error sending WhatsApp message'')"

text \<open>\<open>getenv('WPBOT_API_KEY') ?: 'secure'\<close>.\<close>

definition api_key :: "env \<Rightarrow> string" where
  "api_key e =
     (case WPBOT_API_KEY e of
        None \<Rightarrow> ''secure''
      | Some k \<Rightarrow> if php_empty k then ''secure'' else k)"

definition sendWhatsAppViaApi :: "env \<Rightarrow> world \<Rightarrow> string \<Rightarrow> string \<Rightarrow> world \<times> wa_result" where
  "sendWhatsAppViaApi e w phoneRaw msg =
     (if php_empty phoneRaw then
        (w, \<lparr>wa_success = False, wa_error = Some (JStr ''Phone number is required''),
             wa_http_code = 400, wa_response = None\<rparr>)
      else if php_empty msg then
        (w, \<lparr>wa_success = False, wa_error = None, wa_http_code = 400, wa_response = None\<rparr>)
      else
        let w1 = logWhatsAppDebug (LogApiKey (api_key e)) w;
            phone = digits_only phoneRaw;
            d = \<lparr>apiKey = api_key e, number = phone, wa_message = msg\<rparr>;
            w2 = logWhatsAppDebug (LogPayload d) w1;
            w3 = curl_exec d w2;
            httpCode = http_code (relay e d);
            curlError = curl_error (relay e d);
            w4 = logWhatsAppDebug (LogApiResponse httpCode (response (relay e d)) curlError) w3;
            w5 = logWhatsAppDebug LogCurlInfo w4;
            responseData = decode_response e (response (relay e d));
            w6 = insert_whatsapp_log e
                   \<lparr>log_phone = phone, log_message = msg, response_code = httpCode,
                    response_data = responseToStore e responseData\<rparr> w5
        in (w6,
            if \<not> php_empty curlError then
              \<lparr>wa_success = False, wa_error = Some (JStr curlError),
               wa_http_code = (if httpCode = 0 then 500 else httpCode),
               wa_response = Some responseData\<rparr>
            else if \<not> (200 \<le> httpCode \<and> httpCode < 300) then
              \<lparr>wa_success = False, wa_error = Some (relay_error_message responseData),
               wa_http_code = httpCode, wa_response = Some responseData\<rparr>
            else
              \<lparr>wa_success = True, wa_error = None, wa_http_code = httpCode,
               wa_response = Some responseData\<rparr>))"

text \<open>
  The options array of \<open>sendPaymentConfirmationInternal\<close>; a key that is absent or
  \<open>NULL\<close> is \<open>None\<close>.
\<close>

record confirmation_params =
  p_payment_id :: "nat option"
  p_phone :: "string option"
  p_client_id :: "nat option"

definition ucfirst_type :: "sub_type \<Rightarrow> string" where
  "ucfirst_type t = (case t of Internet \<Rightarrow> ''Internet'' | Satellite \<Rightarrow> ''Satellite'')"

definition confirmation_message :: "env \<Rightarrow> string \<Rightarrow> sub_type \<Rightarrow> rat \<Rightarrow> date \<Rightarrow> string" where
  "confirmation_message e name t amt pdate =
     ''Hello '' @ name @ '','' @ [CHR 0x0A, CHR 0x0A] @
     ''We have received your '' @ ucfirst_type t @ '' subscription payment.'' @ [CHR 0x0A] @
     ''Amount: $'' @ number_format e amt @ [CHR 0x0A] @
     ''Date: '' @ format_long_date e pdate @ [CHR 0x0A, CHR 0x0A] @
     ''Thank you for your prompt payment.'' @ [CHR 0x0A] @
     ''- Spotnet Team''"

text \<open>
  \<open>SELECT ... FROM payments p JOIN subscriptions s ... JOIN clients c ... WHERE p.id =
  :payment_id\<close>, with \<open>None\<close> for an empty result.
\<close>

definition select_payment_join :: "world \<Rightarrow> nat \<Rightarrow> (payment \<times> subscription \<times> client) option" where
  "select_payment_join w pid =
     (case find (\<lambda>p. payment_id p = pid) (payments w) of
        None \<Rightarrow> None
      | Some p \<Rightarrow>
          (case subscriptions w (subscription_id p) of
             None \<Rightarrow> None
           | Some s \<Rightarrow>
               (case clients w (client_id s) of
                  None \<Rightarrow> None
                | Some c \<Rightarrow> Some (p, s, c))))"

definition wa_failure :: "string \<Rightarrow> nat \<Rightarrow> wa_result" where
  "wa_failure err c =
     \<lparr>wa_success = False, wa_error = Some (JStr err), wa_http_code = c, wa_response = None\<rparr>"

text \<open>
  \<open>INSERT INTO reminders (client_id, message, send_via_whatsapp, status, ...) VALUES
  (:client_id, :message, 1, 'sent', NOW(), NOW())\<close>; the new row's id is
  \<open>lastInsertId()\<close>.
\<close>

definition insert_reminder :: "nat \<Rightarrow> string \<Rightarrow> world \<Rightarrow> world" where
  "insert_reminder cid msg w =
     w\<lparr>reminders := reminders w @
         [\<lparr>reminder_id = Suc (reminders_last_id w), reminder_client_id = cid,
           reminder_message = msg, send_via_whatsapp = True, reminder_status = Sent\<rparr>],
       reminders_last_id := Suc (reminders_last_id w)\<rparr>"

text \<open>\<open>UPDATE reminders SET status = 'failed' WHERE id = :id\<close>.\<close>

definition set_reminder_failed :: "nat \<Rightarrow> world \<Rightarrow> world" where
  "set_reminder_failed rid w =
     w\<lparr>reminders :=
         map (\<lambda>r. if reminder_id r = rid then r\<lparr>reminder_status := Failed\<rparr> else r)
           (reminders w)\<rparr>"

text \<open>
  The result returned when the relay call failed:
  \<open>'error' => $sendResult['error'] ?? 'Unknown error sending WhatsApp message'\<close>.
\<close>

definition send_failed :: "wa_result \<Rightarrow> wa_result" where
  "send_failed sendResult =
     \<lparr>wa_success = False,
      wa_error = (case wa_error sendResult of
                    Some x \<Rightarrow> Some x
                  | None \<Rightarrow> Some (JStr ''Unknown error sending WhatsApp message'')),
      wa_http_code = wa_http_code sendResult,
      wa_response = wa_response sendResult\<rparr>"

definition sendPaymentConfirmationInternal ::
    "env \<Rightarrow> world \<Rightarrow> confirmation_params \<Rightarrow> world \<times> wa_result" where
  "sendPaymentConfirmationInternal e w params =
     (let paymentId = (case p_payment_id params of Some n \<Rightarrow> n | None \<Rightarrow> 0)
      in if paymentId = 0 then (w, wa_failure ''Valid payment ID is required'' 400)
         else
           (case pdo_error e SelectPayment of
              Some err \<Rightarrow> (w, wa_failure (''Database error: '' @ err) 500)
            | None \<Rightarrow>
           (case select_payment_join w paymentId of
              None \<Rightarrow> (w, wa_failure ''Payment not found'' 404)
            | Some (p, s, c) \<Rightarrow>
                let phone = (case p_phone params of
                               Some ph \<Rightarrow> ph
                             | None \<Rightarrow> (case client_phone c of Some ph \<Rightarrow> ph | None \<Rightarrow> ''''))
                in if php_empty phone then (w, wa_failure ''Client phone number is missing'' 400)
                   else if whatsapp_opt_in c \<noteq> 1 then
                     (w, wa_failure ''Client has not opted in for WhatsApp notifications'' 400)
                   else
                     let msg = confirmation_message e (client_name c) (stype s) (amount p)
                                 (payment_date p)
                     in (case pdo_error e InsertReminder of
                           Some err \<Rightarrow> (w, wa_failure (''Database error: '' @ err) 500)
                         | None \<Rightarrow>
                             let w1 = insert_reminder (client_id s) msg w;
                                 reminderId = reminders_last_id w1;
                                 (w2, sendResult) = sendWhatsAppViaApi e w1 phone msg
                             in if \<not> wa_success sendResult then
                                  (if reminderId > 0 then
                                     (case pdo_error e UpdateReminder of
                                        Some err \<Rightarrow>
                                          (w2, wa_failure (''Database error: '' @ err) 500)
                                      | None \<Rightarrow>
                                          (set_reminder_failed reminderId w2,
                                           send_failed sendResult))
                                   else (w2, send_failed sendResult))
                                else
                                  (w2, \<lparr>wa_success = True, wa_error = None,
                                        wa_http_code = wa_http_code sendResult,
                                        wa_response = wa_response sendResult\<rparr>)))))"

text \<open>\<open>array_merge($options, ['payment_id' => $paymentId])\<close>.\<close>

definition sendPaymentConfirmationMessage ::
    "env \<Rightarrow> world \<Rightarrow> nat \<Rightarrow> confirmation_params \<Rightarrow> world \<times> wa_result" where
  "sendPaymentConfirmationMessage e w paymentId options =
     sendPaymentConfirmationInternal e w (options\<lparr>p_payment_id := Some paymentId\<rparr>)"

section \<open>Payments API\<close>

text \<open>
  The JSON body of a payment request; a key that is absent is \<open>None\<close>. The amount is
  the decoded JSON value as it arrives, since the code tests it with \<open>empty()\<close> and
  casts it with \<open>(float)\<close>; the other fields have the types the client application
  declares, and for them \<open>null\<close> is \<open>None\<close> as well.
\<close>

record payment_request =
  req_subscription_id :: "nat option"
  req_amount :: "json option"
  req_payment_method :: "string option"
  req_notes :: "string option"
  req_payment_date :: "string option"
  req_send_whatsapp :: "bool option"

record payment_response_data =
  r_payment_id :: nat
  r_next_payment_date :: date
  whatsapp_sent :: bool
  whatsapp_error :: "json option"

record api_response =
  success :: bool
  message :: string
  data :: "payment_response_data option"
  code :: nat

text \<open>\<open>sendResponse\<close> writes the response and ends the request.\<close>

definition sendResponse :: "bool \<Rightarrow> string \<Rightarrow> payment_response_data option \<Rightarrow> nat \<Rightarrow> api_response" where
  "sendResponse ok msg d c = \<lparr>success = ok, message = msg, data = d, code = c\<rparr>"

definition database_error :: "string \<Rightarrow> api_response" where
  "database_error err = sendResponse False (''Database error: '' @ err) None 500"

text \<open>
  \<open>SELECT s.*, c.name ..., c.phone as client_phone, c.whatsapp_opt_in FROM subscriptions s
  JOIN clients c ON s.client_id = c.id WHERE s.id = :subscription_id\<close>.
\<close>

definition select_subscription_join :: "world \<Rightarrow> nat \<Rightarrow> (subscription \<times> client) option" where
  "select_subscription_join w sid =
     (case subscriptions w sid of
        None \<Rightarrow> None
      | Some s \<Rightarrow> (case clients w (client_id s) of None \<Rightarrow> None | Some c \<Rightarrow> Some (s, c)))"

text \<open>\<open>INSERT INTO payments (...)\<close>; the new row's id is \<open>lastInsertId()\<close>.\<close>

definition insert_payment :: "nat \<Rightarrow> rat \<Rightarrow> date \<Rightarrow> string \<Rightarrow> string \<Rightarrow> world \<Rightarrow> world" where
  "insert_payment sid amt pdate method pnotes w =
     w\<lparr>payments := payments w @
         [\<lparr>payment_id = Suc (payments_last_id w), subscription_id = sid, amount = amt,
           payment_date = pdate, payment_method = method, payment_notes = pnotes\<rparr>],
       payments_last_id := Suc (payments_last_id w)\<rparr>"

text \<open>
  \<open>UPDATE subscriptions SET next_payment_date = :next_payment_date, status = 'active'
  WHERE id = :subscription_id\<close>.
\<close>

definition update_subscription_paid :: "nat \<Rightarrow> date \<Rightarrow> world \<Rightarrow> world" where
  "update_subscription_paid sid next_date w =
     w\<lparr>subscriptions :=
         (\<lambda>k. if k = sid
              then map_option (\<lambda>s. s\<lparr>next_payment_date := next_date, status := Active\<rparr>)
                     (subscriptions w k)
              else subscriptions w k)\<rparr>"

definition sendPaymentConfirmationEmail ::
    "subscription \<times> client \<Rightarrow> rat \<Rightarrow> date \<Rightarrow> date \<Rightarrow> world \<Rightarrow> world" where
  "sendPaymentConfirmationEmail sc amt pdate next_date w =
     w\<lparr>mailbox := mailbox w @
         [\<lparr>mail_to = client_email (snd sc), mail_subscription_type = stype (fst sc),
           mail_amount = amt, mail_payment_date = pdate, mail_next_payment_date = next_date\<rparr>]\<rparr>"

text \<open>
  \<open>$should_send_whatsapp\<close>: with no \<open>send_whatsapp\<close> in the request the client's opt-in
  and phone decide; with one, it must be true as well.
\<close>

definition should_send_whatsapp :: "bool option \<Rightarrow> client \<Rightarrow> bool" where
  "should_send_whatsapp send_whatsapp_request c =
     (case send_whatsapp_request of
        None \<Rightarrow> whatsapp_opt_in c = 1 \<and> \<not> php_empty_opt (client_phone c)
      | Some b \<Rightarrow> b \<and> whatsapp_opt_in c = 1 \<and> \<not> php_empty_opt (client_phone c))"

text \<open>
  The notifications after the commit: the email, the decision about WhatsApp with its
  debug line, the confirmation message when it is to be sent, and the response.
\<close>

definition notify_and_respond ::
    "env \<Rightarrow> world \<Rightarrow> nat \<Rightarrow> nat \<Rightarrow> subscription \<times> client \<Rightarrow> rat \<Rightarrow> date \<Rightarrow> date \<Rightarrow>
     bool option \<Rightarrow> world \<times> api_response" where
  "notify_and_respond e w pid sid sc amt pdate new_next_date send_whatsapp_request =
     (let w1 = sendPaymentConfirmationEmail sc amt pdate new_next_date w;
          should_send = should_send_whatsapp send_whatsapp_request (snd sc);
          w2 = logWhatsAppDebug
                 (LogEval pid sid (whatsapp_opt_in (snd sc)) (client_phone (snd sc))
                    send_whatsapp_request should_send) w1;
          (w3, sent, err) =
            (if should_send then
               let (w', confirmationResult) =
                     sendPaymentConfirmationMessage e w2 pid
                       \<lparr>p_payment_id = None, p_phone = client_phone (snd sc),
                        p_client_id = Some (client_id (fst sc))\<rparr>
               in (logWhatsAppDebug
                     (LogInternalSend pid (wa_success confirmationResult)
                        (wa_error confirmationResult)) w',
                   wa_success confirmationResult, wa_error confirmationResult)
             else (w2, False, None))
      in (w3, sendResponse True ''Payment processed successfully''
                (Some \<lparr>r_payment_id = pid, r_next_payment_date = new_next_date,
                       whatsapp_sent = sent, whatsapp_error = err\<rparr>) 200))"

text \<open>
  The optional fields of the request:
  \<open>isset($input['payment_method']) ? $input['payment_method'] : 'cash'\<close>,
  \<open>isset($input['notes']) ? trim($input['notes']) : ''\<close> and
  \<open>isset($input['payment_date']) && !empty($input['payment_date']) ? date('Y-m-d',
  strtotime($input['payment_date'])) : date('Y-m-d')\<close>.
\<close>

definition request_method :: "payment_request \<Rightarrow> string" where
  "request_method input = (case req_payment_method input of Some m \<Rightarrow> m | None \<Rightarrow> ''cash'')"

definition request_notes :: "payment_request \<Rightarrow> string" where
  "request_notes input = (case req_notes input of Some n \<Rightarrow> trim n | None \<Rightarrow> '''')"

definition request_date :: "env \<Rightarrow> payment_request \<Rightarrow> date" where
  "request_date e input =
     (case req_payment_date input of
        Some s \<Rightarrow> if php_empty s then today e else parse_date e s
      | None \<Rightarrow> today e)"

text \<open>
  \<open>processPayment\<close>. The two required-field messages are
  \<open>ucfirst(str_replace('_', ' ', $field)) . ' is required'\<close> for the fields
  \<open>subscription_id\<close> and \<open>amount\<close>. A rollback returns the world as it was when the
  transaction began; everything from the email on happens after the commit and is
  \<open>notify_and_respond\<close>.
\<close>

definition processPayment :: "env \<Rightarrow> world \<Rightarrow> payment_request \<Rightarrow> world \<times> api_response" where
  "processPayment e w input =
     (case req_subscription_id input of
        None \<Rightarrow> (w, sendResponse False ''Subscription id is required'' None 400)
      | Some sid \<Rightarrow>
     if sid = 0 then (w, sendResponse False ''Subscription id is required'' None 400)
     else
     (case req_amount input of
        None \<Rightarrow> (w, sendResponse False ''Amount is required'' None 400)
      | Some raw_amount \<Rightarrow>
     if php_empty_json raw_amount then (w, sendResponse False ''Amount is required'' None 400)
     else
       let amt = floatval raw_amount;
           method = request_method input;
           pnotes = request_notes input;
           pdate = request_date e input
       in
       (case pdo_error e SelectSubscription of
          Some err \<Rightarrow> (w, database_error err)
        | None \<Rightarrow>
       (case select_subscription_join w sid of
          None \<Rightarrow> (w, sendResponse False ''Subscription not found'' None 404)
        | Some sc \<Rightarrow>
       (case pdo_error e InsertPayment of
          Some err \<Rightarrow> (w, database_error err)
        | None \<Rightarrow>
            let w1 = insert_payment sid amt pdate method pnotes w;
                pid = payments_last_id w1;
                new_next_date =
                  DateTime_add_months (next_payment_date (fst sc)) (billing_cycle (fst sc))
            in
            (case pdo_error e UpdateSubscription of
               Some err \<Rightarrow> (w, database_error err)
             | None \<Rightarrow>
                 notify_and_respond e (update_subscription_paid sid new_next_date w1)
                   pid sid sc amt pdate new_next_date (req_send_whatsapp input)))))))"

section \<open>Subscriptions API: the expiration sweep\<close>

text \<open>
  \<open>UPDATE subscriptions SET status = 'expired' WHERE status = 'active' AND
  next_payment_date < CURDATE()\<close>, one row at a time.
\<close>

definition expire_if_overdue :: "date \<Rightarrow> subscription \<Rightarrow> subscription" where
  "expire_if_overdue cur s =
     (if status s = Active \<and> date_less (next_payment_date s) cur
      then s\<lparr>status := Expired\<rparr> else s)"

text \<open>\<open>updateExpiredSubscriptions\<close>: a \<open>PDOException\<close> is logged and swallowed.\<close>

definition updateExpiredSubscriptions :: "env \<Rightarrow> world \<Rightarrow> world" where
  "updateExpiredSubscriptions e w =
     (case pdo_error e UpdateExpired of
        Some err \<Rightarrow> w
      | None \<Rightarrow>
          w\<lparr>subscriptions :=
              (\<lambda>k. map_option (expire_if_overdue (today e)) (subscriptions w k))\<rparr>)"

text \<open>
  The confirmation sends the payments API has attempted, as its debug log records them:
  one \<open>WhatsApp internal send\<close> line is written after each call of
  \<open>sendPaymentConfirmationMessage\<close>.
\<close>

definition is_internal_send :: "debug_line \<Rightarrow> bool" where
  "is_internal_send l = (case l of LogInternalSend pid sent err \<Rightarrow> True | _ \<Rightarrow> False)"

definition whatsapp_attempts :: "world \<Rightarrow> nat" where
  "whatsapp_attempts w = length (filter is_internal_send (debug_log w))"

section \<open>Example data\<close>

text \<open>
  Two clients in the style of the schema's sample rows, one opted in to WhatsApp and one
  not, and the two subscriptions of the specification's example scenarios.
\<close>

definition john :: client where
  "john = \<lparr>client_name = ''John Doe'', client_email = ''john@example.com'',
           client_phone = Some ''+1234567890'', whatsapp_opt_in = 1\<rparr>"

definition jane :: client where
  "jane = \<lparr>client_name = ''Jane Smith'', client_email = ''jane@example.com'',
           client_phone = Some ''+1234567891'', whatsapp_opt_in = 0\<rparr>"

definition monthly_sub :: subscription where
  "monthly_sub =
     \<lparr>client_id = 1, stype = Internet, start_date = \<lparr>year = 2024, month = 1, day = 31\<rparr>,
      end_date = None, billing_cycle = 1, status = Active,
      next_payment_date = \<lparr>year = 2025, month = 1, day = 31\<rparr>, monthly_amount = 50\<rparr>"

definition quarterly_sub :: subscription where
  "quarterly_sub =
     \<lparr>client_id = 2, stype = Satellite, start_date = \<lparr>year = 2024, month = 3, day = 1\<rparr>,
      end_date = None, billing_cycle = 3, status = Expired,
      next_payment_date = \<lparr>year = 2025, month = 9, day = 1\<rparr>, monthly_amount = 30\<rparr>"

definition example_world :: world where
  "example_world =
     \<lparr>clients = [1 \<mapsto> john, 2 \<mapsto> jane],
      subscriptions = [1 \<mapsto> monthly_sub, 2 \<mapsto> quarterly_sub],
      payments = [], payments_last_id = 0, reminders = [], reminders_last_id = 0,
      whatsapp_logs = [], outbox = [], mailbox = [], debug_log = []\<rparr>"

text \<open>The example world with the phone of the first client replaced by the string \<open>0\<close>.\<close>

definition zero_phone_world :: world where
  "zero_phone_world =
     example_world\<lparr>clients := (clients example_world)(1 \<mapsto> john\<lparr>client_phone := Some ''0''\<rparr>)\<rparr>"

text \<open>An environment in which every statement succeeds and the relay accepts the message.\<close>

definition example_env :: env where
  "example_env =
     \<lparr>today = \<lparr>year = 2025, month = 1, day = 15\<rparr>,
      pdo_error = (\<lambda>s. None),
      relay = (\<lambda>d. \<lparr>response = Some ''sent'', http_code = 200, curl_error = ''''\<rparr>),
      WPBOT_API_KEY = None,
      json_decode = (\<lambda>s. Some (JObj [(''status'', JStr s)])),
      json_encode = (\<lambda>j. ''{}''),
      number_format = (\<lambda>a. ''50.00''),
      format_long_date = (\<lambda>d. ''January 15, 2025''),
      parse_date = (\<lambda>s. if s = ''2019-06-30'' then \<lparr>year = 2019, month = 6, day = 30\<rparr>
                        else \<lparr>year = 2025, month = 1, day = 15\<rparr>)\<rparr>"

text \<open>The same with a relay that cannot be reached.\<close>

definition relay_down_env :: env where
  "relay_down_env =
     example_env\<lparr>relay := (\<lambda>d. \<lparr>response = None, http_code = 0,
                                  curl_error = ''Could not resolve host''\<rparr>)\<rparr>"

text \<open>The same with a relay that answers 200 with a body that is not JSON.\<close>

definition html_reply_env :: env where
  "html_reply_env =
     example_env\<lparr>relay := (\<lambda>d. \<lparr>response = Some ''<html>OK</html>'', http_code = 200,
                                  curl_error = ''''\<rparr>),
                 json_decode := (\<lambda>s. None)\<rparr>"

definition example_request :: payment_request where
  "example_request =
     \<lparr>req_subscription_id = Some 1, req_amount = Some (JNum 50), req_payment_method = Some ''cash'',
      req_notes = None, req_payment_date = Some ''2025-01-15'', req_send_whatsapp = None\<rparr>"

section \<open>Properties of the date arithmetic\<close>

lemma days_in_month_bounds: "28 \<le> days_in_month y m \<and> days_in_month y m \<le> 31"
  by (simp add: days_in_month_def)

lemma range_limit_days_fits:
  "d \<le> days_in_month y m \<Longrightarrow> range_limit_days y m d = \<lparr>year = y, month = m, day = d\<rparr>"
  by (subst range_limit_days.simps) simp

lemma valid_date_day_le: "valid_date d \<Longrightarrow> day d \<le> 31"
  using days_in_month_bounds[of "year d" "month d"] by (simp add: valid_date_def)

lemma DateTime_add_months_fits:
  "day d \<le> days_in_month (target_year d c) (target_month d c) \<Longrightarrow>
   DateTime_add_months d c = addMonths_clamped d c"
  by (simp add: DateTime_add_months_def addMonths_clamped_def min_def range_limit_days_fits)

lemma DateTime_add_months_overflow:
  assumes "valid_date d" and "days_in_month (target_year d c) (target_month d c) < day d"
  shows "DateTime_add_months d c =
           \<lparr>year = target_year d c, month = Suc (target_month d c),
            day = day d - days_in_month (target_year d c) (target_month d c)\<rparr>"
proof -
  let ?y = "target_year d c" and ?m = "target_month d c"
  have le31: "day d \<le> 31" using assms(1) by (rule valid_date_day_le)
  have not12: "?m \<noteq> 12"
  proof
    assume "?m = 12"
    then have "days_in_month ?y ?m = 31" by (simp add: days_in_month_def)
    with assms(2) le31 show False by simp
  qed
  have "day d - days_in_month ?y ?m \<le> 3"
    using le31 days_in_month_bounds[of ?y ?m] by arith
  then have "day d - days_in_month ?y ?m \<le> days_in_month ?y (Suc ?m)"
    using days_in_month_bounds[of ?y "Suc ?m"] by arith
  then have "range_limit_days ?y (Suc ?m) (day d - days_in_month ?y ?m) =
      \<lparr>year = ?y, month = Suc ?m, day = day d - days_in_month ?y ?m\<rparr>"
    by (rule range_limit_days_fits)
  moreover have "range_limit_days ?y ?m (day d) =
      range_limit_days ?y (Suc ?m) (day d - days_in_month ?y ?m)"
    using assms(2) not12 by (subst range_limit_days.simps) simp
  ultimately show ?thesis by (simp add: DateTime_add_months_def)
qed

text \<open>
  The constructor reads a calendar date unchanged, so for a valid start date
  \<open>calculateNextPaymentDate\<close> is the month arithmetic alone; a start date written with a
  day beyond the end of its month is normalised first.
\<close>

lemma new_DateTime_valid: "valid_date d \<Longrightarrow> new_DateTime d = Some d"
  using days_in_month_bounds[of "year d" "month d"]
  by (auto simp add: new_DateTime_def valid_date_def Let_def range_limit_days_fits)

lemma calculateNextPaymentDate_valid:
  "valid_date d \<Longrightarrow> calculateNextPaymentDate d c = Some (DateTime_add_months d c)"
  by (simp add: calculateNextPaymentDate_def new_DateTime_valid)

lemma calculateNextPaymentDate_normalises:
  "calculateNextPaymentDate \<lparr>year = 2025, month = 2, day = 30\<rparr> 1 =
     Some \<lparr>year = 2025, month = 4, day = 2\<rparr>"
  by (simp add: calculateNextPaymentDate_def new_DateTime_def DateTime_add_months_def
        target_year_def target_month_def days_in_month_def is_leap_year_def
        range_limit_days.simps)

section \<open>What each statement changes\<close>

text \<open>
  Each statement of the workflow touches one table or log and leaves the rest of the
  world alone. These rules let a proof read a field through a sequence of statements
  without unfolding them.
\<close>

lemma logWhatsAppDebug_frame [simp]:
  "clients (logWhatsAppDebug l w) = clients w"
  "subscriptions (logWhatsAppDebug l w) = subscriptions w"
  "payments (logWhatsAppDebug l w) = payments w"
  "payments_last_id (logWhatsAppDebug l w) = payments_last_id w"
  "reminders (logWhatsAppDebug l w) = reminders w"
  "reminders_last_id (logWhatsAppDebug l w) = reminders_last_id w"
  "whatsapp_logs (logWhatsAppDebug l w) = whatsapp_logs w"
  "outbox (logWhatsAppDebug l w) = outbox w"
  "mailbox (logWhatsAppDebug l w) = mailbox w"
  "debug_log (logWhatsAppDebug l w) = debug_log w @ [l]"
  by (simp_all add: logWhatsAppDebug_def)

lemma curl_exec_frame [simp]:
  "clients (curl_exec d w) = clients w"
  "subscriptions (curl_exec d w) = subscriptions w"
  "payments (curl_exec d w) = payments w"
  "payments_last_id (curl_exec d w) = payments_last_id w"
  "reminders (curl_exec d w) = reminders w"
  "reminders_last_id (curl_exec d w) = reminders_last_id w"
  "whatsapp_logs (curl_exec d w) = whatsapp_logs w"
  "outbox (curl_exec d w) = outbox w @ [d]"
  "mailbox (curl_exec d w) = mailbox w"
  "debug_log (curl_exec d w) = debug_log w"
  by (simp_all add: curl_exec_def)

lemma insert_whatsapp_log_frame [simp]:
  "clients (insert_whatsapp_log e r w) = clients w"
  "subscriptions (insert_whatsapp_log e r w) = subscriptions w"
  "payments (insert_whatsapp_log e r w) = payments w"
  "payments_last_id (insert_whatsapp_log e r w) = payments_last_id w"
  "reminders (insert_whatsapp_log e r w) = reminders w"
  "reminders_last_id (insert_whatsapp_log e r w) = reminders_last_id w"
  "outbox (insert_whatsapp_log e r w) = outbox w"
  "mailbox (insert_whatsapp_log e r w) = mailbox w"
  "debug_log (insert_whatsapp_log e r w) = debug_log w"
  by (simp_all add: insert_whatsapp_log_def split: option.splits)

lemma insert_reminder_frame [simp]:
  "clients (insert_reminder c m w) = clients w"
  "subscriptions (insert_reminder c m w) = subscriptions w"
  "payments (insert_reminder c m w) = payments w"
  "payments_last_id (insert_reminder c m w) = payments_last_id w"
  "reminders_last_id (insert_reminder c m w) = Suc (reminders_last_id w)"
  "whatsapp_logs (insert_reminder c m w) = whatsapp_logs w"
  "outbox (insert_reminder c m w) = outbox w"
  "mailbox (insert_reminder c m w) = mailbox w"
  "debug_log (insert_reminder c m w) = debug_log w"
  by (simp_all add: insert_reminder_def)

lemma set_reminder_failed_frame [simp]:
  "clients (set_reminder_failed r w) = clients w"
  "subscriptions (set_reminder_failed r w) = subscriptions w"
  "payments (set_reminder_failed r w) = payments w"
  "payments_last_id (set_reminder_failed r w) = payments_last_id w"
  "reminders_last_id (set_reminder_failed r w) = reminders_last_id w"
  "whatsapp_logs (set_reminder_failed r w) = whatsapp_logs w"
  "outbox (set_reminder_failed r w) = outbox w"
  "mailbox (set_reminder_failed r w) = mailbox w"
  "debug_log (set_reminder_failed r w) = debug_log w"
  by (simp_all add: set_reminder_failed_def)

lemma insert_payment_frame [simp]:
  "clients (insert_payment s a d m n w) = clients w"
  "subscriptions (insert_payment s a d m n w) = subscriptions w"
  "payments (insert_payment s a d m n w) = payments w @
     [\<lparr>payment_id = Suc (payments_last_id w), subscription_id = s, amount = a,
       payment_date = d, payment_method = m, payment_notes = n\<rparr>]"
  "payments_last_id (insert_payment s a d m n w) = Suc (payments_last_id w)"
  "reminders (insert_payment s a d m n w) = reminders w"
  "reminders_last_id (insert_payment s a d m n w) = reminders_last_id w"
  "whatsapp_logs (insert_payment s a d m n w) = whatsapp_logs w"
  "outbox (insert_payment s a d m n w) = outbox w"
  "mailbox (insert_payment s a d m n w) = mailbox w"
  "debug_log (insert_payment s a d m n w) = debug_log w"
  by (simp_all add: insert_payment_def)

lemma update_subscription_paid_frame [simp]:
  "clients (update_subscription_paid s d w) = clients w"
  "payments (update_subscription_paid s d w) = payments w"
  "payments_last_id (update_subscription_paid s d w) = payments_last_id w"
  "reminders (update_subscription_paid s d w) = reminders w"
  "reminders_last_id (update_subscription_paid s d w) = reminders_last_id w"
  "whatsapp_logs (update_subscription_paid s d w) = whatsapp_logs w"
  "outbox (update_subscription_paid s d w) = outbox w"
  "mailbox (update_subscription_paid s d w) = mailbox w"
  "debug_log (update_subscription_paid s d w) = debug_log w"
  by (simp_all add: update_subscription_paid_def)

lemma sendPaymentConfirmationEmail_frame [simp]:
  "clients (sendPaymentConfirmationEmail sc a d n w) = clients w"
  "subscriptions (sendPaymentConfirmationEmail sc a d n w) = subscriptions w"
  "payments (sendPaymentConfirmationEmail sc a d n w) = payments w"
  "payments_last_id (sendPaymentConfirmationEmail sc a d n w) = payments_last_id w"
  "reminders (sendPaymentConfirmationEmail sc a d n w) = reminders w"
  "reminders_last_id (sendPaymentConfirmationEmail sc a d n w) = reminders_last_id w"
  "whatsapp_logs (sendPaymentConfirmationEmail sc a d n w) = whatsapp_logs w"
  "outbox (sendPaymentConfirmationEmail sc a d n w) = outbox w"
  "debug_log (sendPaymentConfirmationEmail sc a d n w) = debug_log w"
  by (simp_all add: sendPaymentConfirmationEmail_def)

lemma sendWhatsAppViaApi_frame [simp]:
  "clients (fst (sendWhatsAppViaApi e w ph m)) = clients w"
  "subscriptions (fst (sendWhatsAppViaApi e w ph m)) = subscriptions w"
  "payments (fst (sendWhatsAppViaApi e w ph m)) = payments w"
  "payments_last_id (fst (sendWhatsAppViaApi e w ph m)) = payments_last_id w"
  "reminders (fst (sendWhatsAppViaApi e w ph m)) = reminders w"
  "reminders_last_id (fst (sendWhatsAppViaApi e w ph m)) = reminders_last_id w"
  "mailbox (fst (sendWhatsAppViaApi e w ph m)) = mailbox w"
  by (simp_all add: sendWhatsAppViaApi_def Let_def)

lemma sendWhatsAppViaApi_outbox:
  "outbox (fst (sendWhatsAppViaApi e w ph m)) =
     (if php_empty ph \<or> php_empty m then outbox w
      else outbox w @ [\<lparr>apiKey = api_key e, number = digits_only ph, wa_message = m\<rparr>])"
  by (simp add: sendWhatsAppViaApi_def Let_def)

lemma sendPaymentConfirmationInternal_frame [simp]:
  "clients (fst (sendPaymentConfirmationInternal e w p)) = clients w"
  "subscriptions (fst (sendPaymentConfirmationInternal e w p)) = subscriptions w"
  "payments (fst (sendPaymentConfirmationInternal e w p)) = payments w"
  "payments_last_id (fst (sendPaymentConfirmationInternal e w p)) = payments_last_id w"
  "mailbox (fst (sendPaymentConfirmationInternal e w p)) = mailbox w"
  by (simp_all add: sendPaymentConfirmationInternal_def Let_def split_beta
        split: option.splits)

lemma send_failed_error [simp]:
  "\<not> wa_success (send_failed r)" "\<exists>y. wa_error (send_failed r) = Some y"
  by (simp_all add: send_failed_def split: option.splits)

lemma wa_failure_error [simp]:
  "\<not> wa_success (wa_failure m c)" "wa_error (wa_failure m c) = Some (JStr m)"
  by (simp_all add: wa_failure_def)

lemma sendPaymentConfirmationInternal_error:
  "wa_success (snd (sendPaymentConfirmationInternal e w p)) \<or>
   (\<exists>y. wa_error (snd (sendPaymentConfirmationInternal e w p)) = Some y)"
  by (simp add: sendPaymentConfirmationInternal_def Let_def split_beta
        split: option.splits)

section \<open>The payment transaction\<close>

text \<open>
  A request is accepted when both required fields are present and not empty, the
  subscription and its client are found and none of the three statements of the
  transaction fails. Exactly the accepted requests get the success response; every
  other request leaves the world as it was.
\<close>

lemma sendPaymentConfirmationMessage_frame [simp]:
  "clients (fst (sendPaymentConfirmationMessage e w pid p)) = clients w"
  "subscriptions (fst (sendPaymentConfirmationMessage e w pid p)) = subscriptions w"
  "payments (fst (sendPaymentConfirmationMessage e w pid p)) = payments w"
  "payments_last_id (fst (sendPaymentConfirmationMessage e w pid p)) = payments_last_id w"
  "mailbox (fst (sendPaymentConfirmationMessage e w pid p)) = mailbox w"
  by (simp_all add: sendPaymentConfirmationMessage_def)

lemma notify_and_respond_frame [simp]:
  "clients (fst (notify_and_respond e w pid sid sc amt pdate nd req)) = clients w"
  "subscriptions (fst (notify_and_respond e w pid sid sc amt pdate nd req)) = subscriptions w"
  "payments (fst (notify_and_respond e w pid sid sc amt pdate nd req)) = payments w"
  "payments_last_id (fst (notify_and_respond e w pid sid sc amt pdate nd req)) = payments_last_id w"
  by (simp_all add: notify_and_respond_def Let_def split_beta)

lemma notify_and_respond_mailbox:
  "mailbox (fst (notify_and_respond e w pid sid sc amt pdate nd req)) =
     mailbox w @ [\<lparr>mail_to = client_email (snd sc), mail_subscription_type = stype (fst sc),
           mail_amount = amt, mail_payment_date = pdate, mail_next_payment_date = nd\<rparr>]"
  by (simp add: notify_and_respond_def Let_def split_beta sendPaymentConfirmationEmail_def)

lemma notify_and_respond_response:
  "\<exists>sent err.
     snd (notify_and_respond e w pid sid sc amt pdate nd req) =
       \<lparr>success = True, message = ''Payment processed successfully'',
        data = Some \<lparr>r_payment_id = pid, r_next_payment_date = nd,
                     whatsapp_sent = sent, whatsapp_error = err\<rparr>,
        code = 200\<rparr> \<and>
     (sent \<longrightarrow> should_send_whatsapp req (snd sc)) \<and>
     (should_send_whatsapp req (snd sc) \<longrightarrow> sent \<or> err \<noteq> None) \<and>
     (\<not> should_send_whatsapp req (snd sc) \<longrightarrow> err = None)"
  using sendPaymentConfirmationInternal_error
  by (simp add: notify_and_respond_def Let_def split_beta sendResponse_def
        sendPaymentConfirmationMessage_def)

lemma processPayment_accepted:
  assumes "req_subscription_id input = Some sid" "sid \<noteq> 0"
    and "req_amount input = Some v" "\<not> php_empty_json v"
    and "pdo_error e SelectSubscription = None"
    and "select_subscription_join w sid = Some sc"
    and "pdo_error e InsertPayment = None"
    and "pdo_error e UpdateSubscription = None"
  shows "processPayment e w input =
     notify_and_respond e
       (update_subscription_paid sid
          (DateTime_add_months (next_payment_date (fst sc)) (billing_cycle (fst sc)))
          (insert_payment sid (floatval v) (request_date e input) (request_method input)
             (request_notes input) w))
       (Suc (payments_last_id w)) sid sc (floatval v) (request_date e input)
       (DateTime_add_months (next_payment_date (fst sc)) (billing_cycle (fst sc)))
       (req_send_whatsapp input)"
  using assms by (simp add: processPayment_def Let_def)

lemma notify_and_respond_success [simp]:
  "success (snd (notify_and_respond e w pid sid sc amt pdate nd req))"
  "code (snd (notify_and_respond e w pid sid sc amt pdate nd req)) = 200"
  by (simp_all add: notify_and_respond_def Let_def split_beta sendResponse_def)

lemma processPayment_failure_unchanged:
  "\<not> success (snd (processPayment e w input)) \<Longrightarrow> fst (processPayment e w input) = w"
  by (simp add: processPayment_def Let_def split: option.splits if_splits)

lemma processPayment_success:
  assumes "success (snd (processPayment e w input))"
  obtains sid v sc where "req_subscription_id input = Some sid" "sid \<noteq> 0"
    and "req_amount input = Some v" "\<not> php_empty_json v"
    and "pdo_error e SelectSubscription = None"
    and "select_subscription_join w sid = Some sc"
    and "pdo_error e InsertPayment = None"
    and "pdo_error e UpdateSubscription = None"
  using assms
  by (auto simp add: processPayment_def Let_def sendResponse_def database_error_def
        split: option.splits if_splits)

lemma processPayment_committed:
  assumes "success (snd (processPayment e w input))"
    and "req_subscription_id input = Some sid"
    and "subscriptions w sid = Some s"
  shows "subscriptions (fst (processPayment e w input)) sid =
           Some (s\<lparr>next_payment_date :=
                     DateTime_add_months (next_payment_date s) (billing_cycle s),
                   status := Active\<rparr>)"
proof -
  from assms(1) obtain sid' v sc where acc:
    "req_subscription_id input = Some sid'" "sid' \<noteq> 0"
    "req_amount input = Some v" "\<not> php_empty_json v"
    "pdo_error e SelectSubscription = None"
    "select_subscription_join w sid' = Some sc"
    "pdo_error e InsertPayment = None"
    "pdo_error e UpdateSubscription = None"
    by (rule processPayment_success)
  from acc(1) assms(2) have [simp]: "sid' = sid" by simp
  from acc(6) assms(3) have sc: "fst sc = s"
    by (auto simp: select_subscription_join_def split: option.splits)
  show ?thesis
    using assms(3) sc
    by (simp add: processPayment_accepted[OF acc] update_subscription_paid_def)
qed

section \<open>Example runs\<close>

lemma example_accepts:
  "success (snd (processPayment example_env example_world example_request))"
  by (simp add: processPayment_def Let_def example_request_def example_env_def
        example_world_def select_subscription_join_def monthly_sub_def john_def php_empty_json_def)

lemma example_next_date:
  "DateTime_add_months (next_payment_date monthly_sub) (billing_cycle monthly_sub) =
     \<lparr>year = 2025, month = 3, day = 3\<rparr>"
  by (simp add: monthly_sub_def DateTime_add_months_def target_year_def target_month_def
        days_in_month_def is_leap_year_def range_limit_days.simps)


section \<open>The next due date after a payment\<close>

text \<open>
  Claim C1, as the code has it. A processed payment stores the subscription's due date
  plus its billing cycle in calendar months, computed by PHP's \<open>DateTime::add\<close>: when
  the day of the month exists in the target month the result is that day (here the code
  agrees with a clamping \<open>addMonths\<close>); when it does not, the result is not the last
  day of the target month but the excess days counted into the month after it.
\<close>

theorem payment_date_rolls_over:
  assumes "success (snd (processPayment e w input))"
    and "req_subscription_id input = Some sid"
    and "subscriptions w sid = Some s"
    and "valid_date (next_payment_date s)"
    and "billing_cycle s = 1 \<or> billing_cycle s = 3"
  shows "map_option next_payment_date (subscriptions (fst (processPayment e w input)) sid) =
           Some (let d = next_payment_date s; c = billing_cycle s;
                     y = target_year d c; m = target_month d c
                 in if day d \<le> days_in_month y m then addMonths_clamped d c
                    else \<lparr>year = y, month = Suc m, day = day d - days_in_month y m\<rparr>)"
  using assms(4)
  by (simp add: processPayment_committed[OF assms(1-3)] Let_def DateTime_add_months_fits
        DateTime_add_months_overflow)

text \<open>
  The theorem at the specification's example: due date 2025-01-31, cycle 1. The stored
  date is 2025-03-03.
\<close>

theorem payment_date_rolls_over_witness:
  "map_option next_payment_date
     (subscriptions (fst (processPayment example_env example_world example_request)) 1) =
   Some \<lparr>year = 2025, month = 3, day = 3\<rparr>"
proof -
  have h1: "success (snd (processPayment example_env example_world example_request))"
    by (rule example_accepts)
  have h2: "req_subscription_id example_request = Some 1" by (simp add: example_request_def)
  have h3: "subscriptions example_world 1 = Some monthly_sub" by (simp add: example_world_def)
  have h4: "valid_date (next_payment_date monthly_sub)"
    by (simp add: monthly_sub_def valid_date_def days_in_month_def)
  have h5: "billing_cycle monthly_sub = 1 \<or> billing_cycle monthly_sub = 3"
    by (simp add: monthly_sub_def)
  have "(let d = next_payment_date monthly_sub; c = billing_cycle monthly_sub;
             y = target_year d c; m = target_month d c
         in if day d \<le> days_in_month y m then addMonths_clamped d c
            else \<lparr>year = y, month = Suc m, day = day d - days_in_month y m\<rparr>) =
        \<lparr>year = 2025, month = 3, day = 3\<rparr>"
    by (simp add: monthly_sub_def Let_def target_year_def target_month_def days_in_month_def
          is_leap_year_def)
  with payment_date_rolls_over[OF h1 h2 h3 h4 h5] show ?thesis by simp
qed

text \<open>
  Claim C1 as stated fails at that example: the claim asks for the clamped date
  2025-02-28, the code stores 2025-03-03.
\<close>

theorem payment_date_not_clamped:
  "map_option next_payment_date
     (subscriptions (fst (processPayment example_env example_world example_request)) 1) =
   Some \<lparr>year = 2025, month = 3, day = 3\<rparr> \<and>
   addMonths_clamped (next_payment_date monthly_sub) (billing_cycle monthly_sub) =
     \<lparr>year = 2025, month = 2, day = 28\<rparr> \<and>
   map_option next_payment_date
     (subscriptions (fst (processPayment example_env example_world example_request)) 1) \<noteq>
   Some (addMonths_clamped (next_payment_date monthly_sub) (billing_cycle monthly_sub))"
proof -
  have h2: "req_subscription_id example_request = Some 1" by (simp add: example_request_def)
  have h3: "subscriptions example_world 1 = Some monthly_sub" by (simp add: example_world_def)
  have a: "map_option next_payment_date
     (subscriptions (fst (processPayment example_env example_world example_request)) 1) =
     Some \<lparr>year = 2025, month = 3, day = 3\<rparr>"
    by (subst processPayment_committed[OF example_accepts h2 h3]) (simp add: example_next_date)
  have b: "addMonths_clamped (next_payment_date monthly_sub) (billing_cycle monthly_sub) =
     \<lparr>year = 2025, month = 2, day = 28\<rparr>"
    by (simp add: addMonths_clamped_def monthly_sub_def target_year_def target_month_def
          days_in_month_def is_leap_year_def)
  show ?thesis unfolding a b by simp
qed

section \<open>Reactivation\<close>

text \<open>
  Claim C5. Whatever the status of the subscription before, active, stopped or expired,
  after a successfully processed payment its status is active.
\<close>

theorem payment_reactivates_subscription:
  assumes "success (snd (processPayment e w input))"
    and "req_subscription_id input = Some sid"
    and "subscriptions w sid = Some s"
  shows "map_option status (subscriptions (fst (processPayment e w input)) sid) = Some Active"
proof -
  from assms(1) obtain sid' v sc where acc:
    "req_subscription_id input = Some sid'" "sid' \<noteq> 0"
    "req_amount input = Some v" "\<not> php_empty_json v"
    "pdo_error e SelectSubscription = None"
    "select_subscription_join w sid' = Some sc"
    "pdo_error e InsertPayment = None"
    "pdo_error e UpdateSubscription = None"
    by (rule processPayment_success)
  from acc(1) assms(2) have [simp]: "sid' = sid" by simp
  show ?thesis
    using assms(3) by (simp add: processPayment_accepted[OF acc] update_subscription_paid_def)
qed

text \<open>The theorem at the expired quarterly subscription of the example data.\<close>

theorem payment_reactivates_subscription_witness:
  "status quarterly_sub = Expired \<and>
   map_option status
     (subscriptions
        (fst (processPayment example_env example_world
                (example_request\<lparr>req_subscription_id := Some 2\<rparr>))) 2) = Some Active"
proof -
  let ?r = "example_request\<lparr>req_subscription_id := Some 2\<rparr>"
  have h1: "success (snd (processPayment example_env example_world ?r))"
    by (simp add: processPayment_def Let_def example_request_def example_env_def
          example_world_def select_subscription_join_def quarterly_sub_def jane_def php_empty_json_def)
  have h2: "req_subscription_id ?r = Some 2" by simp
  have h3: "subscriptions example_world 2 = Some quarterly_sub"
    by (simp add: example_world_def)
  show ?thesis
    using payment_reactivates_subscription[OF h1 h2 h3] by (simp add: quarterly_sub_def)
qed

section \<open>Requests that differ in one field\<close>

lemma update_subscription_paid_subscriptions:
  "subscriptions (update_subscription_paid sid nd w) k =
     (if k = sid
      then map_option (\<lambda>s. s\<lparr>next_payment_date := nd, status := Active\<rparr>) (subscriptions w k)
      else subscriptions w k)"
  by (simp add: update_subscription_paid_def)

lemma notify_and_respond_next_date [simp]:
  "map_option r_next_payment_date (data (snd (notify_and_respond e w pid sid sc amt pdate nd req))) =
     Some nd"
  by (simp add: notify_and_respond_def Let_def split_beta sendResponse_def)

text \<open>
  Claim C6. The next due date depends on the stored due date and billing cycle only: two
  requests on the same state that differ only in their \<open>payment_date\<close>, backdated or
  not, leave the same subscriptions table and report the same \<open>next_payment_date\<close>.
\<close>

theorem next_date_ignores_payment_date:
  "subscriptions (fst (processPayment e w (input\<lparr>req_payment_date := da\<rparr>))) =
     subscriptions (fst (processPayment e w (input\<lparr>req_payment_date := db\<rparr>))) \<and>
   map_option r_next_payment_date (data (snd (processPayment e w (input\<lparr>req_payment_date := da\<rparr>)))) =
     map_option r_next_payment_date (data (snd (processPayment e w (input\<lparr>req_payment_date := db\<rparr>))))"
  by (simp add: processPayment_def Let_def sendResponse_def database_error_def
        update_subscription_paid_subscriptions fun_eq_iff split: option.splits)

text \<open>
  The theorem at the example request, once backdated and once with no payment date.
\<close>

theorem next_date_ignores_payment_date_witness:
  "subscriptions (fst (processPayment example_env example_world
       (example_request\<lparr>req_payment_date := Some ''2019-06-30''\<rparr>))) =
   subscriptions (fst (processPayment example_env example_world
       (example_request\<lparr>req_payment_date := None\<rparr>)))"
  using next_date_ignores_payment_date[where e = example_env and w = example_world
          and input = example_request and da = "Some ''2019-06-30''" and db = None]
  by (rule conjunct1)

section \<open>Unknown subscription\<close>

text \<open>
  Claim C7. When the \<open>subscription_id\<close> of the request matches no subscription, the
  operation fails with an error response and nothing changes: the world after the
  request is the world before it, so no payment row is inserted and no subscription's
  due date or status moves. For a request that is otherwise valid the error is
  \<open>Subscription not found\<close> with status 404.
\<close>

theorem unknown_subscription_rejected:
  assumes "req_subscription_id input = Some sid" and "subscriptions w sid = None"
  shows "fst (processPayment e w input) = w \<and>
         \<not> success (snd (processPayment e w input)) \<and>
         data (snd (processPayment e w input)) = None \<and>
         (sid \<noteq> 0 \<and> (\<exists>v. req_amount input = Some v \<and> \<not> php_empty_json v) \<and>
          pdo_error e SelectSubscription = None \<longrightarrow>
            snd (processPayment e w input) =
              \<lparr>success = False, message = ''Subscription not found'', data = None, code = 404\<rparr>)"
  using assms
  by (simp add: processPayment_def Let_def sendResponse_def database_error_def
        select_subscription_join_def split: option.splits)

text \<open>
  The theorem at a request for subscription 99 of the example data, which has none.
\<close>

theorem unknown_subscription_rejected_witness:
  "fst (processPayment example_env example_world
          (example_request\<lparr>req_subscription_id := Some 99\<rparr>)) = example_world \<and>
   snd (processPayment example_env example_world
          (example_request\<lparr>req_subscription_id := Some 99\<rparr>)) =
     \<lparr>success = False, message = ''Subscription not found'', data = None, code = 404\<rparr>"
proof -
  let ?r = "example_request\<lparr>req_subscription_id := Some 99\<rparr>"
  have h1: "req_subscription_id ?r = Some 99" by simp
  have h2: "subscriptions example_world 99 = None" by (simp add: example_world_def)
  have h3: "(99::nat) \<noteq> 0 \<and> (\<exists>v. req_amount ?r = Some v \<and> \<not> php_empty_json v) \<and>
            pdo_error example_env SelectSubscription = None"
    by (simp add: example_request_def example_env_def php_empty_json_def)
  from unknown_subscription_rejected[OF h1 h2, of example_env] h3 show ?thesis by blast
qed

section \<open>Validation of the amount\<close>

text \<open>
  A request whose amount is missing or empty never changes anything, whatever its other
  fields are. The message is that of the first required field that fails, and
  \<open>subscription_id\<close> is checked before \<open>amount\<close>.
\<close>

lemma empty_amount_never_mutates:
  assumes "req_amount input = None \<or> (\<exists>v. req_amount input = Some v \<and> php_empty_json v)"
  shows "fst (processPayment e w input) = w \<and> \<not> success (snd (processPayment e w input)) \<and>
         code (snd (processPayment e w input)) = 400"
  using assms
  by (auto simp add: processPayment_def sendResponse_def split: option.splits)




section \<open>Containment of WhatsApp failures\<close>

lemma sendWhatsAppViaApi_success_relay:
  "wa_success (snd (sendWhatsAppViaApi e w ph m)) \<Longrightarrow>
   \<exists>d. php_empty (curl_error (relay e d)) \<and> 200 \<le> http_code (relay e d) \<and>
       http_code (relay e d) < 300"
  by (auto simp add: sendWhatsAppViaApi_def Let_def split: if_splits)

lemma sendPaymentConfirmationInternal_success_relay:
  "wa_success (snd (sendPaymentConfirmationInternal e w p)) \<Longrightarrow>
   \<exists>d. php_empty (curl_error (relay e d)) \<and> 200 \<le> http_code (relay e d) \<and>
       http_code (relay e d) < 300"
  by (auto simp add: sendPaymentConfirmationInternal_def Let_def split_beta
        split: option.splits if_splits dest: sendWhatsAppViaApi_success_relay)

lemma notify_and_respond_outcome:
  "\<exists>sent err.
     snd (notify_and_respond e w pid sid sc amt pdate nd req) =
       \<lparr>success = True, message = ''Payment processed successfully'',
        data = Some \<lparr>r_payment_id = pid, r_next_payment_date = nd,
                     whatsapp_sent = sent, whatsapp_error = err\<rparr>,
        code = 200\<rparr> \<and>
     (should_send_whatsapp req (snd sc) \<and> \<not> sent \<longrightarrow> err \<noteq> None) \<and>
     (sent \<longrightarrow> (\<exists>d. php_empty (curl_error (relay e d)) \<and> 200 \<le> http_code (relay e d) \<and>
                   http_code (relay e d) < 300))"
proof (cases "should_send_whatsapp req (snd sc)")
  case True
  let ?r = "snd (sendPaymentConfirmationMessage e
                   (logWhatsAppDebug
                      (LogEval pid sid (whatsapp_opt_in (snd sc)) (client_phone (snd sc)) req True)
                      (sendPaymentConfirmationEmail sc amt pdate nd w))
                   pid
                   \<lparr>p_payment_id = None, p_phone = client_phone (snd sc),
                    p_client_id = Some (client_id (fst sc))\<rparr>)"
  have resp: "snd (notify_and_respond e w pid sid sc amt pdate nd req) =
       \<lparr>success = True, message = ''Payment processed successfully'',
        data = Some \<lparr>r_payment_id = pid, r_next_payment_date = nd,
                     whatsapp_sent = wa_success ?r, whatsapp_error = wa_error ?r\<rparr>,
        code = 200\<rparr>"
    using True by (simp add: notify_and_respond_def Let_def split_beta sendResponse_def)
  have err: "\<not> wa_success ?r \<longrightarrow> wa_error ?r \<noteq> None"
    using sendPaymentConfirmationInternal_error
    by (auto simp add: sendPaymentConfirmationMessage_def)
  have ok: "wa_success ?r \<longrightarrow>
      (\<exists>d. php_empty (curl_error (relay e d)) \<and> 200 \<le> http_code (relay e d) \<and>
           http_code (relay e d) < 300)"
    using sendPaymentConfirmationInternal_success_relay
    by (auto simp add: sendPaymentConfirmationMessage_def)
  from resp err ok show ?thesis by blast
next
  case False
  then have "snd (notify_and_respond e w pid sid sc amt pdate nd req) =
       \<lparr>success = True, message = ''Payment processed successfully'',
        data = Some \<lparr>r_payment_id = pid, r_next_payment_date = nd,
                     whatsapp_sent = False, whatsapp_error = None\<rparr>,
        code = 200\<rparr>"
    by (simp add: notify_and_respond_def Let_def sendResponse_def)
  with False show ?thesis by blast
qed

text \<open>
  Claim C2. For a payment request that is accepted and whose transaction commits,
  whatever the WhatsApp attempt does afterwards: the response is the success response,
  the payment row and the advanced due date are in the tables, and a confirmation that
  was to be sent and was not sent shows only as \<open>whatsapp_sent = false\<close> together with
  a \<open>whatsapp_error\<close>. A relay that answers every request with a transport error or a
  status outside 2xx always gives \<open>whatsapp_sent = false\<close>.
\<close>

theorem whatsapp_failure_contained:
  assumes "req_subscription_id input = Some sid" and "sid \<noteq> 0"
    and "req_amount input = Some v" and "\<not> php_empty_json v"
    and "pdo_error e SelectSubscription = None"
    and "select_subscription_join w sid = Some (s, c)"
    and "pdo_error e InsertPayment = None"
    and "pdo_error e UpdateSubscription = None"
  shows "\<exists>sent err.
     snd (processPayment e w input) =
       \<lparr>success = True, message = ''Payment processed successfully'',
        data = Some \<lparr>r_payment_id = Suc (payments_last_id w),
                     r_next_payment_date =
                       DateTime_add_months (next_payment_date s) (billing_cycle s),
                     whatsapp_sent = sent, whatsapp_error = err\<rparr>,
        code = 200\<rparr> \<and>
     (should_send_whatsapp (req_send_whatsapp input) c \<and> \<not> sent \<longrightarrow> err \<noteq> None) \<and>
     ((\<forall>d. \<not> php_empty (curl_error (relay e d)) \<or>
           \<not> (200 \<le> http_code (relay e d) \<and> http_code (relay e d) < 300)) \<longrightarrow> \<not> sent) \<and>
     payments (fst (processPayment e w input)) =
       payments w @
         [\<lparr>payment_id = Suc (payments_last_id w), subscription_id = sid, amount = floatval v,
           payment_date = request_date e input, payment_method = request_method input,
           payment_notes = request_notes input\<rparr>] \<and>
     subscriptions (fst (processPayment e w input)) sid =
       Some (s\<lparr>next_payment_date :=
                 DateTime_add_months (next_payment_date s) (billing_cycle s),
               status := Active\<rparr>)"
proof -
  let ?nd = "DateTime_add_months (next_payment_date s) (billing_cycle s)"
  let ?w = "update_subscription_paid sid ?nd
              (insert_payment sid (floatval v) (request_date e input) (request_method input)
                 (request_notes input) w)"
  have acc: "processPayment e w input =
     notify_and_respond e ?w (Suc (payments_last_id w)) sid (s, c) (floatval v) (request_date e input)
       ?nd (req_send_whatsapp input)"
    using processPayment_accepted[OF assms] by simp
  have sub: "subscriptions w sid = Some s"
    using assms(6) by (auto simp: select_subscription_join_def split: option.splits)
  have pay: "payments (fst (processPayment e w input)) =
       payments w @
         [\<lparr>payment_id = Suc (payments_last_id w), subscription_id = sid, amount = floatval v,
           payment_date = request_date e input, payment_method = request_method input,
           payment_notes = request_notes input\<rparr>]"
    by (simp add: acc)
  have upd: "subscriptions (fst (processPayment e w input)) sid =
       Some (s\<lparr>next_payment_date := ?nd, status := Active\<rparr>)"
    using sub by (simp add: acc update_subscription_paid_subscriptions)
  from notify_and_respond_outcome[of e ?w "Suc (payments_last_id w)" sid "(s, c)" "floatval v"
         "request_date e input" ?nd "req_send_whatsapp input"]
  obtain sent err where
    r: "snd (notify_and_respond e ?w (Suc (payments_last_id w)) sid (s, c) (floatval v)
              (request_date e input) ?nd (req_send_whatsapp input)) =
       \<lparr>success = True, message = ''Payment processed successfully'',
        data = Some \<lparr>r_payment_id = Suc (payments_last_id w), r_next_payment_date = ?nd,
                     whatsapp_sent = sent, whatsapp_error = err\<rparr>,
        code = 200\<rparr>"
    and e1: "should_send_whatsapp (req_send_whatsapp input) c \<and> \<not> sent \<longrightarrow> err \<noteq> None"
    and e2: "sent \<longrightarrow> (\<exists>d. php_empty (curl_error (relay e d)) \<and> 200 \<le> http_code (relay e d) \<and>
                   http_code (relay e d) < 300)"
    by auto
  from e2 have e3: "(\<forall>d. \<not> php_empty (curl_error (relay e d)) \<or>
           \<not> (200 \<le> http_code (relay e d) \<and> http_code (relay e d) < 300)) \<longrightarrow> \<not> sent"
    by blast
  from r acc have r': "snd (processPayment e w input) =
       \<lparr>success = True, message = ''Payment processed successfully'',
        data = Some \<lparr>r_payment_id = Suc (payments_last_id w), r_next_payment_date = ?nd,
                     whatsapp_sent = sent, whatsapp_error = err\<rparr>,
        code = 200\<rparr>"
    by simp
  from r' e1 e3 pay upd show ?thesis by blast
qed

text \<open>
  The theorem at the example request with a relay that cannot be reached.
\<close>

theorem whatsapp_failure_contained_witness:
  "success (snd (processPayment relay_down_env example_world example_request)) \<and>
   map_option whatsapp_sent (data (snd (processPayment relay_down_env example_world example_request))) =
     Some False \<and>
   map_option whatsapp_error (data (snd (processPayment relay_down_env example_world example_request))) \<noteq>
     Some None \<and>
   payments (fst (processPayment relay_down_env example_world example_request)) =
     [\<lparr>payment_id = 1, subscription_id = 1, amount = 50,
       payment_date = \<lparr>year = 2025, month = 1, day = 15\<rparr>, payment_method = ''cash'',
       payment_notes = []\<rparr>] \<and>
   subscriptions (fst (processPayment relay_down_env example_world example_request)) 1 =
     Some (monthly_sub\<lparr>next_payment_date := \<lparr>year = 2025, month = 3, day = 3\<rparr>,
                        status := Active\<rparr>)"
proof -
  have h1: "req_subscription_id example_request = Some 1" by (simp add: example_request_def)
  have h2: "(1::nat) \<noteq> 0" by simp
  have h3: "req_amount example_request = Some (JNum 50)" by (simp add: example_request_def)
  have h4: "\<not> php_empty_json (JNum 50)" by (simp add: php_empty_json_def)
  have h5: "pdo_error relay_down_env SelectSubscription = None"
    by (simp add: relay_down_env_def example_env_def)
  have h6: "select_subscription_join example_world 1 = Some (monthly_sub, john)"
    by (simp add: example_world_def select_subscription_join_def monthly_sub_def)
  have h7: "pdo_error relay_down_env InsertPayment = None"
    by (simp add: relay_down_env_def example_env_def)
  have h8: "pdo_error relay_down_env UpdateSubscription = None"
    by (simp add: relay_down_env_def example_env_def)
  have attempt: "should_send_whatsapp (req_send_whatsapp example_request) john"
    by (simp add: should_send_whatsapp_def example_request_def john_def php_empty_opt_def
          php_empty_def)
  have down: "\<forall>d. \<not> php_empty (curl_error (relay relay_down_env d)) \<or>
           \<not> (200 \<le> http_code (relay relay_down_env d) \<and> http_code (relay relay_down_env d) < 300)"
    by (simp add: relay_down_env_def example_env_def php_empty_def)
  have vals: "request_date relay_down_env example_request = \<lparr>year = 2025, month = 1, day = 15\<rparr>"
    "request_method example_request = ''cash''" "request_notes example_request = []"
    "payments example_world = []" "payments_last_id example_world = 0"
    by (simp_all add: request_date_def request_method_def request_notes_def example_request_def
          relay_down_env_def example_env_def example_world_def php_empty_def)
  from whatsapp_failure_contained[OF h1 h2 h3 h4 h5 h6 h7 h8] attempt down
  obtain sent err where
    r: "snd (processPayment relay_down_env example_world example_request) =
       \<lparr>success = True, message = ''Payment processed successfully'',
        data = Some \<lparr>r_payment_id = Suc (payments_last_id example_world),
                     r_next_payment_date =
                       DateTime_add_months (next_payment_date monthly_sub)
                         (billing_cycle monthly_sub),
                     whatsapp_sent = sent, whatsapp_error = err\<rparr>,
        code = 200\<rparr>"
    and s: "\<not> sent" and er: "err \<noteq> None"
    and p: "payments (fst (processPayment relay_down_env example_world example_request)) =
       payments example_world @
         [\<lparr>payment_id = Suc (payments_last_id example_world), subscription_id = 1,
           amount = floatval (JNum 50),
           payment_date = request_date relay_down_env example_request,
           payment_method = request_method example_request,
           payment_notes = request_notes example_request\<rparr>]"
    and u: "subscriptions (fst (processPayment relay_down_env example_world example_request)) 1 =
       Some (monthly_sub\<lparr>next_payment_date :=
                 DateTime_add_months (next_payment_date monthly_sub) (billing_cycle monthly_sub),
               status := Active\<rparr>)"
    by blast
  from r s er p u show ?thesis by (simp add: vals example_next_date floatval_def)
qed

section \<open>When a WhatsApp confirmation is attempted\<close>

lemma whatsapp_attempts_log [simp]:
  "whatsapp_attempts (logWhatsAppDebug l w) =
     whatsapp_attempts w + (if is_internal_send l then 1 else 0)"
  by (simp add: whatsapp_attempts_def)

lemma whatsapp_attempts_frame [simp]:
  "whatsapp_attempts (curl_exec d w) = whatsapp_attempts w"
  "whatsapp_attempts (insert_whatsapp_log e r w) = whatsapp_attempts w"
  "whatsapp_attempts (insert_reminder c m w) = whatsapp_attempts w"
  "whatsapp_attempts (set_reminder_failed rid w) = whatsapp_attempts w"
  "whatsapp_attempts (sendPaymentConfirmationEmail sc a pd nd w) = whatsapp_attempts w"
  "whatsapp_attempts (insert_payment sid a pd pm pn w) = whatsapp_attempts w"
  "whatsapp_attempts (update_subscription_paid sid nd w) = whatsapp_attempts w"
  by (simp_all add: whatsapp_attempts_def)

lemma whatsapp_attempts_sendWhatsAppViaApi [simp]:
  "whatsapp_attempts (fst (sendWhatsAppViaApi e w ph m)) = whatsapp_attempts w"
  by (simp add: sendWhatsAppViaApi_def Let_def is_internal_send_def)

lemma whatsapp_attempts_sendPaymentConfirmationInternal [simp]:
  "whatsapp_attempts (fst (sendPaymentConfirmationInternal e w p)) = whatsapp_attempts w"
  by (simp add: sendPaymentConfirmationInternal_def Let_def split_beta split: option.splits)

lemma notify_and_respond_attempts:
  "whatsapp_attempts (fst (notify_and_respond e w pid sid sc amt pdate nd req)) =
     whatsapp_attempts w + (if should_send_whatsapp req (snd sc) then 1 else 0)"
  by (simp add: notify_and_respond_def Let_def split_beta is_internal_send_def
        sendPaymentConfirmationMessage_def)

lemma notify_and_respond_no_send:
  "\<not> should_send_whatsapp req (snd sc) \<Longrightarrow>
   outbox (fst (notify_and_respond e w pid sid sc amt pdate nd req)) = outbox w \<and>
   reminders (fst (notify_and_respond e w pid sid sc amt pdate nd req)) = reminders w"
  by (simp add: notify_and_respond_def Let_def)

lemma should_send_whatsapp_iff:
  "should_send_whatsapp req c \<longleftrightarrow>
     whatsapp_opt_in c = 1 \<and> \<not> php_empty_opt (client_phone c) \<and> (req = None \<or> req = Some True)"
  by (cases req) (auto simp: should_send_whatsapp_def)

text \<open>
  When the confirmation is to be sent, the dispatcher's own statements succeed and the
  payment ids are below the auto-increment counter, one reminder row is written and
  exactly one request goes to the relay, to the digits of the client's phone.
\<close>

lemma confirmation_message_not_empty: "\<not> php_empty (confirmation_message e n t a d)"
  by (simp add: confirmation_message_def php_empty_def)

lemma find_new_payment:
  assumes "\<forall>p \<in> set ps. payment_id p \<le> n" and "payment_id q = Suc n"
  shows "find (\<lambda>p. payment_id p = Suc n) (ps @ [q]) = Some q"
  using assms by (induction ps) auto

lemma confirmation_reaches_relay:
  assumes "req_subscription_id input = Some sid" and "sid \<noteq> 0"
    and "req_amount input = Some v" and "\<not> php_empty_json v"
    and "pdo_error e SelectSubscription = None"
    and "select_subscription_join w sid = Some (s, c)"
    and "pdo_error e InsertPayment = None"
    and "pdo_error e UpdateSubscription = None"
    and send: "should_send_whatsapp (req_send_whatsapp input) c"
    and "pdo_error e SelectPayment = None" and "pdo_error e InsertReminder = None"
    and ids: "\<forall>p \<in> set (payments w). payment_id p \<le> payments_last_id w"
    and phone: "client_phone c = Some ph"
  shows "outbox (fst (processPayment e w input)) =
           outbox w @
             [\<lparr>apiKey = api_key e, number = digits_only ph,
               wa_message = confirmation_message e (client_name c) (stype s) (floatval v)
                              (request_date e input)\<rparr>]"
proof -
  let ?nd = "DateTime_add_months (next_payment_date s) (billing_cycle s)"
  let ?row = "\<lparr>payment_id = Suc (payments_last_id w), subscription_id = sid, amount = floatval v,
           payment_date = request_date e input, payment_method = request_method input,
           payment_notes = request_notes input\<rparr>"
  have sub: "subscriptions w sid = Some s" and cl: "clients w (client_id s) = Some c"
    using assms(6) by (auto simp: select_subscription_join_def split: option.splits)
  have nonempty: "\<not> php_empty ph" and opt: "whatsapp_opt_in c = 1"
    using send phone by (auto simp: should_send_whatsapp_iff php_empty_opt_def)
  have found: "find (\<lambda>p. payment_id p = Suc (payments_last_id w)) (payments w @ [?row]) = Some ?row"
    using ids by (intro find_new_payment) simp_all
  show ?thesis
    using send sub cl nonempty opt found phone assms(10,11)
    by (simp add: processPayment_accepted[OF assms(1-8)] notify_and_respond_def Let_def
          split_beta sendPaymentConfirmationMessage_def sendPaymentConfirmationInternal_def
          select_payment_join_def update_subscription_paid_subscriptions
          sendWhatsAppViaApi_outbox confirmation_message_not_empty split: option.splits)
qed

lemma confirmation_reminder_written:
  assumes "req_subscription_id input = Some sid" and "sid \<noteq> 0"
    and "req_amount input = Some v" and "\<not> php_empty_json v"
    and "pdo_error e SelectSubscription = None"
    and "select_subscription_join w sid = Some (s, c)"
    and "pdo_error e InsertPayment = None"
    and "pdo_error e UpdateSubscription = None"
    and send: "should_send_whatsapp (req_send_whatsapp input) c"
    and "pdo_error e SelectPayment = None" and "pdo_error e InsertReminder = None"
    and ids: "\<forall>p \<in> set (payments w). payment_id p \<le> payments_last_id w"
  shows "length (reminders (fst (processPayment e w input))) = Suc (length (reminders w))"
proof -
  let ?row = "\<lparr>payment_id = Suc (payments_last_id w), subscription_id = sid,
           amount = floatval v,
           payment_date = request_date e input, payment_method = request_method input,
           payment_notes = request_notes input\<rparr>"
  have sub: "subscriptions w sid = Some s" and cl: "clients w (client_id s) = Some c"
    using assms(6) by (auto simp: select_subscription_join_def split: option.splits)
  from send obtain ph where phone: "client_phone c = Some ph" and nonempty: "\<not> php_empty ph"
    and opt: "whatsapp_opt_in c = 1"
    by (cases "client_phone c") (auto simp: should_send_whatsapp_iff php_empty_opt_def)
  have found: "find (\<lambda>p. payment_id p = Suc (payments_last_id w)) (payments w @ [?row]) = Some ?row"
    using ids by (intro find_new_payment) simp_all
  show ?thesis
    using send sub cl nonempty opt found phone assms(10,11)
    by (simp add: processPayment_accepted[OF assms(1-8)] notify_and_respond_def Let_def
          split_beta sendPaymentConfirmationMessage_def sendPaymentConfirmationInternal_def
          select_payment_join_def update_subscription_paid_subscriptions
          insert_reminder_def set_reminder_failed_def split: option.splits)
qed

text \<open>
  Claim C3, as the code has it. For a successfully processed payment on a subscription
  of client \<open>c\<close>, in a payments table whose ids are below its auto-increment counter, a
  WhatsApp confirmation is attempted (one more \<open>WhatsApp internal send\<close> line in the
  debug log) if and only if the client's \<open>whatsapp_opt_in\<close> is 1, the client's phone is
  not empty for PHP's \<open>empty()\<close>, which counts \<open>NULL\<close>, the empty string and the
  string \<open>0\<close> as empty, and \<open>send_whatsapp\<close> was omitted or true. When it is not
  attempted, no request goes to the relay and no reminder row is written, also when
  \<open>send_whatsapp = true\<close> was asked for a client who has not opted in. When it is
  attempted and the dispatcher's two statements before the call succeed, one reminder
  row is written and exactly one request goes to the relay, addressed to the digits of
  the client's phone. The email confirmation to the client's address is logged in
  every case.
\<close>

theorem whatsapp_send_condition:
  assumes "success (snd (processPayment e w input))"
    and "req_subscription_id input = Some sid"
    and "subscriptions w sid = Some s"
    and "clients w (client_id s) = Some c"
    and "\<forall>p \<in> set (payments w). payment_id p \<le> payments_last_id w"
  shows "(whatsapp_attempts (fst (processPayment e w input)) = Suc (whatsapp_attempts w) \<longleftrightarrow>
            whatsapp_opt_in c = 1 \<and> \<not> php_empty_opt (client_phone c) \<and>
            (req_send_whatsapp input = None \<or> req_send_whatsapp input = Some True)) \<and>
         (\<not> (whatsapp_opt_in c = 1 \<and> \<not> php_empty_opt (client_phone c) \<and>
             (req_send_whatsapp input = None \<or> req_send_whatsapp input = Some True)) \<longrightarrow>
            whatsapp_attempts (fst (processPayment e w input)) = whatsapp_attempts w \<and>
            outbox (fst (processPayment e w input)) = outbox w \<and>
            reminders (fst (processPayment e w input)) = reminders w) \<and>
         (whatsapp_opt_in c = 1 \<and> \<not> php_empty_opt (client_phone c) \<and>
          (req_send_whatsapp input = None \<or> req_send_whatsapp input = Some True) \<and>
          pdo_error e SelectPayment = None \<and> pdo_error e InsertReminder = None \<longrightarrow>
            (\<exists>ph amt. client_phone c = Some ph \<and>
               outbox (fst (processPayment e w input)) =
                 outbox w @
                   [\<lparr>apiKey = api_key e, number = digits_only ph,
                     wa_message = confirmation_message e (client_name c) (stype s) amt
                                    (request_date e input)\<rparr>]) \<and>
            length (reminders (fst (processPayment e w input))) = Suc (length (reminders w))) \<and>
         (\<exists>m. mailbox (fst (processPayment e w input)) = mailbox w @ [m] \<and>
              mail_to m = client_email c)"
proof -
  from assms(1) obtain sid' v sc where acc:
    "req_subscription_id input = Some sid'" "sid' \<noteq> 0"
    "req_amount input = Some v" "\<not> php_empty_json v"
    "pdo_error e SelectSubscription = None"
    "select_subscription_join w sid' = Some sc"
    "pdo_error e InsertPayment = None"
    "pdo_error e UpdateSubscription = None"
    by (rule processPayment_success)
  from acc(1) assms(2) have sid: "sid' = sid" by simp
  from acc(6) assms(3,4) sid have sc: "sc = (s, c)"
    by (auto simp: select_subscription_join_def split: option.splits)
  note acc' = acc[unfolded sid sc]
  note run = processPayment_accepted[OF acc']
  have cnt: "whatsapp_attempts (fst (processPayment e w input)) =
      whatsapp_attempts w + (if should_send_whatsapp (req_send_whatsapp input) c then 1 else 0)"
    by (simp add: run notify_and_respond_attempts)
  have quiet: "\<not> should_send_whatsapp (req_send_whatsapp input) c \<Longrightarrow>
      outbox (fst (processPayment e w input)) = outbox w \<and>
      reminders (fst (processPayment e w input)) = reminders w"
    using notify_and_respond_no_send[of "req_send_whatsapp input" "(s, c)"] by (simp add: run)
  have reach: "should_send_whatsapp (req_send_whatsapp input) c \<and>
      pdo_error e SelectPayment = None \<and> pdo_error e InsertReminder = None \<Longrightarrow>
      (\<exists>ph amt. client_phone c = Some ph \<and>
         outbox (fst (processPayment e w input)) =
           outbox w @
             [\<lparr>apiKey = api_key e, number = digits_only ph,
               wa_message = confirmation_message e (client_name c) (stype s) amt
                              (request_date e input)\<rparr>]) \<and>
      length (reminders (fst (processPayment e w input))) = Suc (length (reminders w))"
  proof -
    assume h: "should_send_whatsapp (req_send_whatsapp input) c \<and>
      pdo_error e SelectPayment = None \<and> pdo_error e InsertReminder = None"
    then obtain ph where phone: "client_phone c = Some ph"
      by (cases "client_phone c") (auto simp: should_send_whatsapp_iff php_empty_opt_def)
    from h have a: "should_send_whatsapp (req_send_whatsapp input) c"
      and b: "pdo_error e SelectPayment = None" and d: "pdo_error e InsertReminder = None"
      by simp_all
    from confirmation_reaches_relay[OF acc' a b d assms(5) phone]
         confirmation_reminder_written[OF acc' a b d assms(5)] phone
    show ?thesis by blast
  qed
  have mail: "\<exists>m. mailbox (fst (processPayment e w input)) = mailbox w @ [m] \<and>
      mail_to m = client_email c"
    by (simp add: run notify_and_respond_mailbox)
  have eq: "should_send_whatsapp (req_send_whatsapp input) c \<longleftrightarrow>
      whatsapp_opt_in c = 1 \<and> \<not> php_empty_opt (client_phone c) \<and>
      (req_send_whatsapp input = None \<or> req_send_whatsapp input = Some True)"
    by (rule should_send_whatsapp_iff)
  show ?thesis
    using cnt quiet reach mail unfolding eq by auto
qed

text \<open>
  The theorem at the example data: one attempt, one reminder row and one relay request
  for the client who opted in, and none, with the mail still logged, for the client who
  did not although the request asks for WhatsApp.
\<close>

theorem whatsapp_send_condition_witness:
  "whatsapp_attempts (fst (processPayment example_env example_world example_request)) = 1 \<and>
   (\<exists>m. outbox (fst (processPayment example_env example_world example_request)) =
          [\<lparr>apiKey = ''secure'', number = ''1234567890'', wa_message = m\<rparr>]) \<and>
   length (reminders (fst (processPayment example_env example_world example_request))) = 1 \<and>
   whatsapp_attempts (fst (processPayment example_env example_world
      (example_request\<lparr>req_subscription_id := Some 2, req_send_whatsapp := Some True\<rparr>))) = 0 \<and>
   outbox (fst (processPayment example_env example_world
      (example_request\<lparr>req_subscription_id := Some 2, req_send_whatsapp := Some True\<rparr>))) = [] \<and>
   (\<exists>m. mailbox (fst (processPayment example_env example_world
      (example_request\<lparr>req_subscription_id := Some 2, req_send_whatsapp := Some True\<rparr>))) = [m] \<and>
        mail_to m = ''jane@example.com'')"
proof -
  let ?r = "example_request\<lparr>req_subscription_id := Some 2, req_send_whatsapp := Some True\<rparr>"
  have ids: "\<forall>p \<in> set (payments example_world). payment_id p \<le> payments_last_id example_world"
    by (simp add: example_world_def)
  have a1: "success (snd (processPayment example_env example_world example_request))"
    by (rule example_accepts)
  have a2: "req_subscription_id example_request = Some 1" by (simp add: example_request_def)
  have a3: "subscriptions example_world 1 = Some monthly_sub" by (simp add: example_world_def)
  have a4: "clients example_world (client_id monthly_sub) = Some john"
    by (simp add: example_world_def monthly_sub_def)
  have a5: "whatsapp_opt_in john = 1 \<and> \<not> php_empty_opt (client_phone john) \<and>
            (req_send_whatsapp example_request = None \<or>
             req_send_whatsapp example_request = Some True)"
    by (simp add: john_def php_empty_opt_def php_empty_def example_request_def)
  have a6: "pdo_error example_env SelectPayment = None \<and>
            pdo_error example_env InsertReminder = None"
    by (simp add: example_env_def)
  have b1: "success (snd (processPayment example_env example_world ?r))"
    by (simp add: processPayment_def Let_def example_request_def example_env_def
          example_world_def select_subscription_join_def quarterly_sub_def jane_def
          php_empty_json_def)
  have b2: "req_subscription_id ?r = Some 2" by simp
  have b3: "subscriptions example_world 2 = Some quarterly_sub" by (simp add: example_world_def)
  have b4: "clients example_world (client_id quarterly_sub) = Some jane"
    by (simp add: example_world_def quarterly_sub_def)
  have b5: "\<not> (whatsapp_opt_in jane = 1 \<and> \<not> php_empty_opt (client_phone jane) \<and>
            (req_send_whatsapp ?r = None \<or> req_send_whatsapp ?r = Some True))"
    by (simp add: jane_def)
  have w0: "whatsapp_attempts example_world = 0" "outbox example_world = []"
    "mailbox example_world = []" "reminders example_world = []"
    "client_email jane = ''jane@example.com''"
    "client_phone john = Some ''+1234567890''"
    "api_key example_env = ''secure''" "digits_only ''+1234567890'' = ''1234567890''"
    by (simp_all add: whatsapp_attempts_def example_world_def jane_def john_def api_key_def
          example_env_def digits_only_def is_digit_def)
  from whatsapp_send_condition[OF a1 a2 a3 a4 ids] a5 a6
  have a: "whatsapp_attempts (fst (processPayment example_env example_world example_request)) =
      Suc (whatsapp_attempts example_world)"
    and o: "\<exists>ph amt. client_phone john = Some ph \<and>
               outbox (fst (processPayment example_env example_world example_request)) =
                 outbox example_world @
                   [\<lparr>apiKey = api_key example_env, number = digits_only ph,
                     wa_message = confirmation_message example_env (client_name john)
                                    (stype monthly_sub) amt
                                    (request_date example_env example_request)\<rparr>]"
    and l: "length (reminders (fst (processPayment example_env example_world example_request))) =
      Suc (length (reminders example_world))"
    by blast+
  from o have o': "\<exists>m. outbox (fst (processPayment example_env example_world example_request)) =
          [\<lparr>apiKey = ''secure'', number = ''1234567890'', wa_message = m\<rparr>]"
    by (auto simp add: w0)
  from whatsapp_send_condition[OF b1 b2 b3 b4 ids] b5
  have b: "whatsapp_attempts (fst (processPayment example_env example_world ?r)) =
      whatsapp_attempts example_world"
    and c: "outbox (fst (processPayment example_env example_world ?r)) = outbox example_world"
    and d: "\<exists>m. mailbox (fst (processPayment example_env example_world ?r)) =
      mailbox example_world @ [m] \<and> mail_to m = client_email jane"
    by blast+
  from a o' l b c d show ?thesis by (simp add: w0)
qed

text \<open>
  Claim C3 as stated fails for a phone that is the string \<open>0\<close>: the client has opted
  in, the phone is a non-empty string, \<open>send_whatsapp\<close> is omitted and the payment
  succeeds, yet nothing is attempted, since \<open>empty('0')\<close> is true in PHP.
\<close>

theorem phone_zero_not_attempted:
  "clients zero_phone_world 1 = Some (john\<lparr>client_phone := Some ''0''\<rparr>) \<and>
   client_phone (john\<lparr>client_phone := Some ''0''\<rparr>) \<noteq> None \<and>
   client_phone (john\<lparr>client_phone := Some ''0''\<rparr>) \<noteq> Some [] \<and>
   whatsapp_opt_in (john\<lparr>client_phone := Some ''0''\<rparr>) = 1 \<and>
   req_send_whatsapp example_request = None \<and>
   success (snd (processPayment example_env zero_phone_world example_request)) \<and>
   whatsapp_attempts (fst (processPayment example_env zero_phone_world example_request)) = 0 \<and>
   outbox (fst (processPayment example_env zero_phone_world example_request)) = [] \<and>
   reminders (fst (processPayment example_env zero_phone_world example_request)) = []"
proof -
  let ?c = "john\<lparr>client_phone := Some ''0''\<rparr>"
  have acc: "processPayment example_env zero_phone_world example_request =
     notify_and_respond example_env
       (update_subscription_paid 1
          (DateTime_add_months (next_payment_date (fst (monthly_sub, ?c)))
             (billing_cycle (fst (monthly_sub, ?c))))
          (insert_payment 1 (floatval (JNum 50)) (request_date example_env example_request)
             (request_method example_request) (request_notes example_request)
             zero_phone_world))
       (Suc (payments_last_id zero_phone_world)) 1 (monthly_sub, ?c) (floatval (JNum 50))
       (request_date example_env example_request)
       (DateTime_add_months (next_payment_date (fst (monthly_sub, ?c)))
          (billing_cycle (fst (monthly_sub, ?c))))
       (req_send_whatsapp example_request)"
    by (rule processPayment_accepted)
       (simp_all add: example_request_def example_env_def example_world_def
          zero_phone_world_def select_subscription_join_def monthly_sub_def php_empty_json_def)
  have quiet: "\<not> should_send_whatsapp (req_send_whatsapp example_request) (snd (monthly_sub, ?c))"
    by (simp add: should_send_whatsapp_def example_request_def php_empty_opt_def php_empty_def)
  have w0: "whatsapp_attempts zero_phone_world = 0" "outbox zero_phone_world = []"
    "reminders zero_phone_world = []"
    by (simp_all add: whatsapp_attempts_def zero_phone_world_def example_world_def)
  have c1: "clients zero_phone_world 1 = Some ?c" by (simp add: zero_phone_world_def)
  have c2: "client_phone ?c \<noteq> None" "client_phone ?c \<noteq> Some []" "whatsapp_opt_in ?c = 1"
    "req_send_whatsapp example_request = None"
    by (simp_all add: john_def example_request_def)
  have s: "success (snd (processPayment example_env zero_phone_world example_request))"
    unfolding acc by simp
  have n: "whatsapp_attempts (fst (processPayment example_env zero_phone_world example_request)) = 0"
    unfolding acc using quiet by (simp add: notify_and_respond_attempts w0)
  have o: "outbox (fst (processPayment example_env zero_phone_world example_request)) = []"
    "reminders (fst (processPayment example_env zero_phone_world example_request)) = []"
    unfolding acc using notify_and_respond_no_send[OF quiet] by (simp_all add: w0)
  from c1 c2 s n o show ?thesis by (intro conjI)
qed

section \<open>The expiration sweep\<close>

lemma updateExpiredSubscriptions_subscriptions:
  "pdo_error e UpdateExpired = None \<Longrightarrow>
   subscriptions (updateExpiredSubscriptions e w) k =
     map_option (expire_if_overdue (today e)) (subscriptions w k)"
  by (simp add: updateExpiredSubscriptions_def)

lemma expire_if_overdue_idem:
  "expire_if_overdue cur (expire_if_overdue cur s) = expire_if_overdue cur s"
  by (simp add: expire_if_overdue_def)

lemma updateExpiredSubscriptions_idem:
  "updateExpiredSubscriptions e (updateExpiredSubscriptions e w) = updateExpiredSubscriptions e w"
  by (simp add: updateExpiredSubscriptions_def option.map_comp comp_def expire_if_overdue_idem
        split: option.splits)

text \<open>
  Claim C4. After one run of the sweep whose \<open>UPDATE\<close> executes, every subscription
  that was active with a due date strictly before today is the same row with status
  expired, every other subscription is unchanged in all fields, no row appears or
  disappears and nothing outside the subscriptions table changes. A second run on the
  result changes nothing.
\<close>

theorem sweep_expires_overdue:
  assumes "pdo_error e UpdateExpired = None"
  shows "(\<forall>k s. subscriptions w k = Some s \<and> status s = Active \<and>
                date_less (next_payment_date s) (today e) \<longrightarrow>
            subscriptions (updateExpiredSubscriptions e w) k = Some (s\<lparr>status := Expired\<rparr>)) \<and>
         (\<forall>k s. subscriptions w k = Some s \<and>
                \<not> (status s = Active \<and> date_less (next_payment_date s) (today e)) \<longrightarrow>
            subscriptions (updateExpiredSubscriptions e w) k = Some s) \<and>
         (\<forall>k. subscriptions w k = None \<longrightarrow>
            subscriptions (updateExpiredSubscriptions e w) k = None) \<and>
         updateExpiredSubscriptions e w =
           w\<lparr>subscriptions := subscriptions (updateExpiredSubscriptions e w)\<rparr> \<and>
         updateExpiredSubscriptions e (updateExpiredSubscriptions e w) =
           updateExpiredSubscriptions e w"
proof (intro conjI allI impI)
  fix k s
  assume "subscriptions w k = Some s \<and> status s = Active \<and>
          date_less (next_payment_date s) (today e)"
  then show "subscriptions (updateExpiredSubscriptions e w) k = Some (s\<lparr>status := Expired\<rparr>)"
    using assms by (simp add: updateExpiredSubscriptions_subscriptions expire_if_overdue_def)
next
  fix k s
  assume "subscriptions w k = Some s \<and>
          \<not> (status s = Active \<and> date_less (next_payment_date s) (today e))"
  then show "subscriptions (updateExpiredSubscriptions e w) k = Some s"
    using assms by (auto simp add: updateExpiredSubscriptions_subscriptions expire_if_overdue_def)
next
  fix k
  assume "subscriptions w k = None"
  then show "subscriptions (updateExpiredSubscriptions e w) k = None"
    using assms by (simp add: updateExpiredSubscriptions_subscriptions)
next
  show "updateExpiredSubscriptions e w =
          w\<lparr>subscriptions := subscriptions (updateExpiredSubscriptions e w)\<rparr>"
    using assms by (simp add: updateExpiredSubscriptions_def)
next
  show "updateExpiredSubscriptions e (updateExpiredSubscriptions e w) =
          updateExpiredSubscriptions e w"
    by (rule updateExpiredSubscriptions_idem)
qed

text \<open>
  The theorem at the example data on 2025-10-15: the active subscription due on
  2025-01-31 expires, the already expired one stays as it is.
\<close>

theorem sweep_expires_overdue_witness:
  "subscriptions (updateExpiredSubscriptions
                    (example_env\<lparr>today := \<lparr>year = 2025, month = 10, day = 15\<rparr>\<rparr>) example_world) 1 =
     Some (monthly_sub\<lparr>status := Expired\<rparr>) \<and>
   subscriptions (updateExpiredSubscriptions
                    (example_env\<lparr>today := \<lparr>year = 2025, month = 10, day = 15\<rparr>\<rparr>) example_world) 2 =
     Some quarterly_sub \<and>
   updateExpiredSubscriptions (example_env\<lparr>today := \<lparr>year = 2025, month = 10, day = 15\<rparr>\<rparr>)
     (updateExpiredSubscriptions
        (example_env\<lparr>today := \<lparr>year = 2025, month = 10, day = 15\<rparr>\<rparr>) example_world) =
   updateExpiredSubscriptions (example_env\<lparr>today := \<lparr>year = 2025, month = 10, day = 15\<rparr>\<rparr>)
     example_world"
proof -
  let ?e = "example_env\<lparr>today := \<lparr>year = 2025, month = 10, day = 15\<rparr>\<rparr>"
  have h: "pdo_error ?e UpdateExpired = None" by (simp add: example_env_def)
  have s1: "subscriptions example_world 1 = Some monthly_sub \<and> status monthly_sub = Active \<and>
            date_less (next_payment_date monthly_sub) (today ?e)"
    by (simp add: example_world_def monthly_sub_def date_less_def)
  have s2: "subscriptions example_world 2 = Some quarterly_sub \<and>
            \<not> (status quarterly_sub = Active \<and>
               date_less (next_payment_date quarterly_sub) (today ?e))"
    by (simp add: example_world_def quarterly_sub_def)
  from sweep_expires_overdue[OF h, of example_world] s1 s2 show ?thesis by blast
qed

section \<open>The relay call\<close>

lemma sendWhatsAppViaApi_result:
  assumes "\<not> php_empty phoneRaw" and "\<not> php_empty msg"
  shows "snd (sendWhatsAppViaApi e w phoneRaw msg) =
     (let r = relay e \<lparr>apiKey = api_key e, number = digits_only phoneRaw, wa_message = msg\<rparr>;
          responseData = decode_response e (response r)
      in if \<not> php_empty (curl_error r) then
           \<lparr>wa_success = False, wa_error = Some (JStr (curl_error r)),
            wa_http_code = (if http_code r = 0 then 500 else http_code r),
            wa_response = Some responseData\<rparr>
         else if \<not> (200 \<le> http_code r \<and> http_code r < 300) then
           \<lparr>wa_success = False, wa_error = Some (relay_error_message responseData),
            wa_http_code = http_code r, wa_response = Some responseData\<rparr>
         else
           \<lparr>wa_success = True, wa_error = None, wa_http_code = http_code r,
            wa_response = Some responseData\<rparr>)"
  using assms by (simp add: sendWhatsAppViaApi_def Let_def)

text \<open>
  Claim C8, as the code has it. For a call with a phone and a message, a transport
  failure (a \<open>curl\<close> error) and a status outside 2xx both give \<open>success = false\<close> with
  an error message, and exactly one request is sent, so there is no retry. A body that
  is not JSON is not a failure of its own: it is kept as raw text, and with no \<open>curl\<close>
  error and a 2xx status the result is \<open>success = true\<close> whatever the body is.
\<close>

theorem relay_failures_reported:
  assumes "\<not> php_empty phoneRaw" and "\<not> php_empty msg"
    and "r = relay e \<lparr>apiKey = api_key e, number = digits_only phoneRaw, wa_message = msg\<rparr>"
  shows "(\<not> php_empty (curl_error r) \<longrightarrow>
            \<not> wa_success (snd (sendWhatsAppViaApi e w phoneRaw msg)) \<and>
            wa_error (snd (sendWhatsAppViaApi e w phoneRaw msg)) = Some (JStr (curl_error r))) \<and>
         (php_empty (curl_error r) \<and> \<not> (200 \<le> http_code r \<and> http_code r < 300) \<longrightarrow>
            \<not> wa_success (snd (sendWhatsAppViaApi e w phoneRaw msg)) \<and>
            wa_error (snd (sendWhatsAppViaApi e w phoneRaw msg)) =
              Some (relay_error_message (decode_response e (response r)))) \<and>
         (php_empty (curl_error r) \<and> 200 \<le> http_code r \<and> http_code r < 300 \<longrightarrow>
            wa_success (snd (sendWhatsAppViaApi e w phoneRaw msg)) \<and>
            wa_error (snd (sendWhatsAppViaApi e w phoneRaw msg)) = None) \<and>
         outbox (fst (sendWhatsAppViaApi e w phoneRaw msg)) =
           outbox w @ [\<lparr>apiKey = api_key e, number = digits_only phoneRaw, wa_message = msg\<rparr>]"
  using assms(1,2)
  by (simp add: sendWhatsAppViaApi_result[OF assms(1,2)] sendWhatsAppViaApi_outbox Let_def
        assms(3))

text \<open>
  The theorem at a relay that cannot be reached.
\<close>

theorem relay_failures_reported_witness:
  "\<not> wa_success (snd (sendWhatsAppViaApi relay_down_env example_world ''+1234567890'' ''Hello'')) \<and>
   wa_error (snd (sendWhatsAppViaApi relay_down_env example_world ''+1234567890'' ''Hello'')) =
     Some (JStr ''Could not resolve host'') \<and>
   outbox (fst (sendWhatsAppViaApi relay_down_env example_world ''+1234567890'' ''Hello'')) =
     [\<lparr>apiKey = ''secure'', number = ''1234567890'', wa_message = ''Hello''\<rparr>]"
proof -
  let ?d = "\<lparr>apiKey = api_key relay_down_env, number = digits_only ''+1234567890'',
             wa_message = ''Hello''\<rparr>"
  have h1: "\<not> php_empty ''+1234567890''" by (simp add: php_empty_def)
  have h2: "\<not> php_empty ''Hello''" by (simp add: php_empty_def)
  have h3: "relay relay_down_env ?d = relay relay_down_env ?d" by (rule refl)
  have down: "\<And>d. curl_error (relay relay_down_env d) = ''Could not resolve host''"
    by (simp add: relay_down_env_def)
  have ne: "\<not> php_empty (curl_error (relay relay_down_env ?d))"
    by (simp add: down php_empty_def)
  have vals: "api_key relay_down_env = ''secure''" "digits_only ''+1234567890'' = ''1234567890''"
    "outbox example_world = []"
    by (simp_all add: api_key_def relay_down_env_def example_env_def digits_only_def
          is_digit_def example_world_def)
  from relay_failures_reported[OF h1 h2 h3, of example_world] ne
  have "\<not> wa_success (snd (sendWhatsAppViaApi relay_down_env example_world ''+1234567890'' ''Hello''))"
    and "wa_error (snd (sendWhatsAppViaApi relay_down_env example_world ''+1234567890'' ''Hello'')) =
           Some (JStr (curl_error (relay relay_down_env ?d)))"
    and "outbox (fst (sendWhatsAppViaApi relay_down_env example_world ''+1234567890'' ''Hello'')) =
           outbox example_world @ [?d]"
    by blast+
  then show ?thesis by (simp add: down vals)
qed

text \<open>
  Claim C8 as stated fails for a malformed body under a 2xx status: the relay answers
  200 with an HTML page, decoding fails, and the call reports success with no error.
\<close>

theorem malformed_body_reported_as_success:
  "json_decode html_reply_env ''<html>OK</html>'' = None \<and>
   response (relay html_reply_env
     \<lparr>apiKey = ''secure'', number = ''1234567890'', wa_message = ''Hello''\<rparr>) =
     Some ''<html>OK</html>'' \<and>
   http_code (relay html_reply_env
     \<lparr>apiKey = ''secure'', number = ''1234567890'', wa_message = ''Hello''\<rparr>) = 200 \<and>
   wa_success (snd (sendWhatsAppViaApi html_reply_env example_world ''+1234567890'' ''Hello'')) \<and>
   wa_error (snd (sendWhatsAppViaApi html_reply_env example_world ''+1234567890'' ''Hello'')) = None"
  by (simp add: sendWhatsAppViaApi_def Let_def html_reply_env_def example_env_def php_empty_def)

end
